theory Spec2Isabelle
  imports Complex_Main
begin

section \<open>Grid trading: simulation and backtesting engine\<close>

text \<open>
  A shallow embedding of \<^verbatim>\<open>grid_trading_system.py\<close> (class GridTradingSystem) and
  \<^verbatim>\<open>backtester.py\<close> (class Backtester).

  Conventions of the embedding:
  \<^item> Python and numpy floats are read as real numbers (type \<open>real\<close>): every theorem below
    is about exact arithmetic, rounding is outside the model. Where a double rounds, the
    code can differ from the model in the last bit of a computed amount (the product
    \<^verbatim>\<open>amount * grid_price\<close> of the backtester is \<^verbatim>\<open>order_size\<close> over the reals and can
    be one unit in the last place off it in doubles), so nothing below states the exact
    value that a chain of floating point operations returns.
  \<^item> The prices met in the matching loops are numpy float64 values (they come out of a
    pandas column or a numpy array), for which a division by zero yields inf or nan and
    raises nothing; every comparison with nan is false. The model writes that case out
    where the source divides.
  \<^item> The \<^verbatim>\<open>timestamp\<close> entries of the orders and trades of the simulation
    (wall-clock readings that no computation reads back) are left out of the records.
  \<^item> Mutation of \<^verbatim>\<open>self\<close> is explicit state passing on the record \<open>system\<close>.
\<close>

subsection \<open>Data model\<close>

datatype side = Buy | Sell

datatype order_kind = Limit | Market

datatype order_status = Open | Filled | Rejected

datatype run_mode = Live | Simulation | Backtest

datatype py_error = ValueError | IndexError | NotReal

record order =
  o_id :: nat
  o_price :: real
  o_amount :: real
  o_side :: side
  o_kind :: order_kind
  o_status :: order_status
  o_exchange_id :: "string option"

text \<open>A trade is a dictionary; \<open>t_profit\<close> is \<open>None\<close> when it has no \<^verbatim>\<open>profit\<close>
  key, which is how \<^verbatim>\<open>execute_trade\<close> builds it.\<close>

record trade =
  t_order_id :: nat
  t_price :: real
  t_amount :: real
  t_side :: side
  t_fee :: real
  t_profit :: "real option"

record portfolio =
  cash :: real
  positions :: real
  total_value :: real

text \<open>
  The exchange of live mode is an external collaborator: \<open>exchange s = None\<close> is the
  demo mode that \<^verbatim>\<open>setup_live_exchange\<close> selects without API keys, and
  \<open>exchange s = Some f\<close> answers an order with \<open>Some id\<close>, or with \<open>None\<close> when
  \<^verbatim>\<open>create_order\<close> raises.
\<close>

record system =
  mode :: run_mode
  exchange :: "(order \<Rightarrow> string option) option"
  grid_levels :: "real list"
  orders :: "order list"
  trades :: "trade list"
  portfolio :: portfolio
  current_sim_price :: real
  sim_time :: nat

subsection \<open>Portfolio ledger of the simulation\<close>

definition update_portfolio_value :: "system \<Rightarrow> real \<Rightarrow> system" where
  "update_portfolio_value s current_price =
     s\<lparr>portfolio := (portfolio s)\<lparr>total_value :=
          cash (portfolio s) + positions (portfolio s) * current_price\<rparr>\<rparr>"

definition execute_trade :: "system \<Rightarrow> order \<Rightarrow> trade \<times> system" where
  "execute_trade s ord =
     (let tr = \<lparr>t_order_id = o_id ord, t_price = o_price ord, t_amount = o_amount ord,
                t_side = o_side ord, t_fee = o_price ord * o_amount ord * 0.001,
                t_profit = None\<rparr>;
          pf = portfolio s;
          pf' = (if o_side ord = Buy then
                   (let cost = o_price ord * o_amount ord + t_fee tr in
                    if cash pf \<ge> cost then
                      pf\<lparr>cash := cash pf - cost, positions := positions pf + o_amount ord\<rparr>
                    else pf)
                 else
                   (if positions pf \<ge> o_amount ord then
                      (let revenue = o_price ord * o_amount ord - t_fee tr in
                       pf\<lparr>cash := cash pf + revenue,
                          positions := positions pf - o_amount ord\<rparr>)
                    else pf))
      in (tr, update_portfolio_value (s\<lparr>portfolio := pf', trades := trades s @ [tr]\<rparr>)
                (o_price ord)))"

definition place_order :: "system \<Rightarrow> real \<Rightarrow> real \<Rightarrow> side \<Rightarrow> order_kind \<Rightarrow> order \<times> system" where
  "place_order s price amount sd knd =
     (let ord = \<lparr>o_id = length (orders s) + 1, o_price = price, o_amount = amount,
                 o_side = sd, o_kind = knd, o_status = Open, o_exchange_id = None\<rparr>;
          (ord', s') =
            (if mode s = Simulation then
               (let filled = ord\<lparr>o_status := Filled\<rparr>
                in (filled, snd (execute_trade s filled)))
             else if mode s = Live then
               (case exchange s of
                  None \<Rightarrow> (ord, s)
                | Some create_order \<Rightarrow>
                    (if knd = Limit then
                       (case create_order ord of
                          Some xid \<Rightarrow> (ord\<lparr>o_exchange_id := Some xid\<rparr>, s)
                        | None \<Rightarrow> (ord\<lparr>o_status := Rejected\<rparr>, s))
                     else (ord, s)))
             else (ord, s))
      in (ord', s'\<lparr>orders := orders s' @ [ord']\<rparr>))"

text \<open>The state of a freshly constructed \<^verbatim>\<open>GridTradingSystem(mode)\<close>. In simulation
  mode the constructor also sets the current price to the first close of the data.\<close>

definition init_system :: "run_mode \<Rightarrow> real \<Rightarrow> system" where
  "init_system m first_close =
     \<lparr>mode = m, exchange = None, grid_levels = [], orders = [], trades = [],
      portfolio = \<lparr>cash = 10000, positions = 0, total_value = 10000\<rparr>,
      current_sim_price = first_close, sim_time = 0\<rparr>"

subsection \<open>Grid levels\<close>

text \<open>
  Modelled from the spec: \<^verbatim>\<open>numpy.linspace\<close> and \<^verbatim>\<open>numpy.geomspace\<close> are library
  code that \<^verbatim>\<open>calculate_grid\<close> and \<^verbatim>\<open>backtest_grid_strategy\<close> call and that is
  not under src/. The spec calls their results "evenly spaced between bounds inclusive
  (arithmetic sequence)" and "evenly spaced in log-space (geometric sequence)", with the
  first and last level equal to the bounds; the definitions below follow numpy's
  documented computation of exactly that: \<open>arange(0, num) * step + start\<close> with
  \<open>step = (stop - start) / (num - 1)\<close> and the last entry overwritten by \<open>stop\<close>, and for
  the geometric sequence ten to the power of the linear sequence between the decimal
  logarithms of the bounds, both ends overwritten by the bounds. A negative \<open>num\<close> and a
  zero bound of a geometric sequence raise ValueError. A geometric sequence between
  bounds of opposite sign has entries that are no real numbers (\<open>NotReal\<close>).
\<close>

definition linspace_list :: "real \<Rightarrow> real \<Rightarrow> nat \<Rightarrow> real list" where
  "linspace_list start stop n =
     (let delta = stop - start in
      if n > 1 then
        (map (\<lambda>i. real i * (delta / real (n - 1)) + start) [0..<n])[n - 1 := stop]
      else map (\<lambda>i. real i * delta + start) [0..<n])"

definition np_linspace :: "real \<Rightarrow> real \<Rightarrow> int \<Rightarrow> py_error + real list" where
  "np_linspace start stop num =
     (if num < 0 then Inl ValueError else Inr (linspace_list start stop (nat num)))"

definition geomspace_list :: "real \<Rightarrow> real \<Rightarrow> nat \<Rightarrow> real list" where
  "geomspace_list start stop n =
     (let result = map (\<lambda>e. 10 powr e) (linspace_list (log 10 start) (log 10 stop) n);
          result1 = (if n > 0 then result[0 := start] else result)
      in if n > 1 then result1[n - 1 := stop] else result1)"

definition np_geomspace :: "real \<Rightarrow> real \<Rightarrow> int \<Rightarrow> py_error + real list" where
  "np_geomspace start stop num =
     (if start = 0 \<or> stop = 0 then Inl ValueError
      else if num < 0 then Inl ValueError
      else if 0 < start \<and> 0 < stop then Inr (geomspace_list start stop (nat num))
      else if start < 0 \<and> stop < 0 then
        Inr (map uminus (geomspace_list (- start) (- stop) (nat num)))
      else Inl NotReal)"

text \<open>The loop \<^verbatim>\<open>for i in range(2, n): fib.append(fib[-1] + fib[-2])\<close>, by the number
  of rounds left. The list always holds at least the two starting entries.\<close>

fun fib_append :: "nat \<Rightarrow> int list \<Rightarrow> int list" where
  "fib_append 0 fib = fib"
| "fib_append (Suc k) fib = fib_append k (fib @ [last fib + last (butlast fib)])"

text \<open>Python's \<^verbatim>\<open>max\<close> of a non-empty list.\<close>

definition list_max :: "int list \<Rightarrow> int" where
  "list_max xs = fold max (tl xs) (hd xs)"

definition generate_fibonacci_ratios :: "int \<Rightarrow> real list" where
  "generate_fibonacci_ratios n =
     (let fib = fib_append (nat (n - 2)) [0, 1];
          max_fib = list_max fib
      in map (\<lambda>f. real_of_int f / real_of_int max_fib) fib)"

text \<open>\<^verbatim>\<open>calculate_grid\<close> returns \<^verbatim>\<open>self.grid_levels\<close>; the chain of \<^verbatim>\<open>if/elif\<close> on
  \<^verbatim>\<open>grid_type\<close> has no \<^verbatim>\<open>else\<close>.\<close>

definition calculate_grid ::
  "system \<Rightarrow> real \<Rightarrow> real \<Rightarrow> real \<Rightarrow> int \<Rightarrow> string \<Rightarrow> py_error + (real list \<times> system)" where
  "calculate_grid s current_price lower_bound upper_bound num_grids grid_type =
     (if grid_type = ''linear'' then
        (case np_linspace lower_bound upper_bound num_grids of
           Inl e \<Rightarrow> Inl e
         | Inr g \<Rightarrow> Inr (g, s\<lparr>grid_levels := g\<rparr>))
      else if grid_type = ''geometric'' then
        (case np_geomspace lower_bound upper_bound num_grids of
           Inl e \<Rightarrow> Inl e
         | Inr g \<Rightarrow> Inr (g, s\<lparr>grid_levels := g\<rparr>))
      else if grid_type = ''fibonacci'' then
        (let fib_ratios = generate_fibonacci_ratios num_grids;
             price_range = upper_bound - lower_bound;
             g = map (\<lambda>ratio. lower_bound + ratio * price_range) fib_ratios
         in Inr (g, s\<lparr>grid_levels := g\<rparr>))
      else Inr (grid_levels s, s))"

subsection \<open>Market data\<close>

text \<open>Times are counted in microseconds, the resolution of \<^verbatim>\<open>datetime.now()\<close>.\<close>

record price_bar =
  b_timestamp :: int
  b_open :: real
  b_high :: real
  b_low :: real
  b_close :: real
  b_volume :: real

text \<open>
  \<^verbatim>\<open>numpy.random\<close> is library code, a parameter of the model. Its global generator
  has a state, a value of the type \<open>'g\<close>, that every draw reads and advances and that
  is ambient to the program: whatever ran before has left it behind.
  \<^item> \<open>seed lib k\<close> is the state that \<^verbatim>\<open>np.random.seed(k)\<close> installs in place of the
    ambient one;
  \<^item> \<open>normal lib st loc scale n\<close> is the array that \<^verbatim>\<open>np.random.normal(loc, scale, n)\<close>
    draws in state \<open>st\<close> (entry \<open>i\<close> of it, for \<open>i < n\<close>) and the state it leaves;
  \<^item> \<open>uniform lib st low high n\<close> likewise for \<^verbatim>\<open>np.random.uniform(low, high, n)\<close>.
\<close>

record 'g np_random =
  seed :: "int \<Rightarrow> 'g"
  normal :: "'g \<Rightarrow> real \<Rightarrow> real \<Rightarrow> nat \<Rightarrow> (nat \<Rightarrow> real) \<times> 'g"
  uniform :: "'g \<Rightarrow> real \<Rightarrow> real \<Rightarrow> nat \<Rightarrow> (nat \<Rightarrow> real) \<times> 'g"

definition minute :: int where
  "minute = 60000000"

text \<open>\<^verbatim>\<open>pd.date_range(end=now, periods=n, freq='1min')\<close>: \<open>n\<close> instants one minute apart,
  the last of them \<open>now\<close>.\<close>

definition date_range_end :: "int \<Rightarrow> nat \<Rightarrow> int list" where
  "date_range_end now n = map (\<lambda>i. now - (int n - 1 - int i) * minute) [0..<n]"

fun cumsum_from :: "real \<Rightarrow> real list \<Rightarrow> real list" where
  "cumsum_from acc [] = []"
| "cumsum_from acc (x # xs) = (acc + x) # cumsum_from (acc + x) xs"

definition cumsum :: "real list \<Rightarrow> real list" where
  "cumsum xs = cumsum_from 0 xs"

text \<open>The mean reversion loop \<^verbatim>\<open>for i in range(1, len(prices))\<close> rewrites the array in
  place, so \<open>prev\<close> is the entry before, as already rewritten.\<close>

fun mean_reversion :: "real \<Rightarrow> real \<Rightarrow> real list \<Rightarrow> real list" where
  "mean_reversion base_price prev [] = []"
| "mean_reversion base_price prev (p # ps) =
     (let p' = (if p > base_price * 1.1 then prev * 0.999
                else if p < base_price * 0.9 then prev * 1.001
                else p)
      in p' # mean_reversion base_price p' ps)"

text \<open>The prices that \<^verbatim>\<open>generate_market_data\<close> computes from the array of normal
  draws: the random walk, then the mean reversion loop.\<close>

definition sim_prices :: "(nat \<Rightarrow> real) \<Rightarrow> nat \<Rightarrow> real list" where
  "sim_prices draws n =
     (let base_price = 50000;
          returns = map (\<lambda>i. draws i / sqrt (24 * 60)) [0..<n];
          prices = map (\<lambda>c. base_price * exp c) (cumsum returns)
      in case prices of [] \<Rightarrow> [] | p # ps \<Rightarrow> p # mean_reversion base_price p ps)"

text \<open>
  \<open>ambient\<close> is the state of numpy's generator when \<^verbatim>\<open>generate_market_data\<close> is called,
  and \<open>now\<close> the reading of the clock that \<^verbatim>\<open>datetime.now()\<close> returns. The first
  statement of the function, \<^verbatim>\<open>np.random.seed(42)\<close>, replaces the ambient state; the
  draws are made in the order of the source, the normal array first and the volumes when
  the data frame is built. The result is the bars and the state the generator is left
  in. \<^verbatim>\<open>np.random.normal\<close> raises ValueError for a negative scale.
\<close>

definition generate_market_data ::
  "'g np_random \<Rightarrow> 'g \<Rightarrow> int \<Rightarrow> nat \<Rightarrow> real \<Rightarrow> py_error + (price_bar list \<times> 'g)" where
  "generate_market_data lib ambient now days volatility =
     (let seeded = seed lib 42;
          n = days * 24 * 60;
          dates = date_range_end now n
      in if volatility < 0 then Inl ValueError
         else
           (let (draws, after_normal) = normal lib seeded 0 volatility n;
                prices = sim_prices draws n;
                (volumes, after_uniform) = uniform lib after_normal 100 1000 n
            in Inr (map (\<lambda>i. \<lparr>b_timestamp = dates ! i,
                              b_open = prices ! i * 0.999,
                              b_high = prices ! i * 1.001,
                              b_low = prices ! i * 0.998,
                              b_close = prices ! i,
                              b_volume = volumes i\<rparr>) [0..<n],
                    after_uniform)))"

subsection \<open>Order matching of the simulation\<close>

text \<open>The dictionary \<^verbatim>\<open>params\<close> with the four keys that \<^verbatim>\<open>run_simulation\<close> reads, as
  its callers build it.\<close>

record sim_params =
  grid_type :: string
  num_grids :: int
  grid_range_pct :: real
  order_size :: real

record equity_sample =
  e_timestamp :: int
  e_value :: real
  e_price :: real

text \<open>
  The body of \<^verbatim>\<open>for grid_price in self.grid_levels\<close>. For \<open>grid_price = 0\<close> the
  quotient \<^verbatim>\<open>price_diff\<close> is inf or nan and the test \<^verbatim>\<open>price_diff < 0.001\<close> is false.
\<close>

definition check_grid_hit :: "real \<Rightarrow> system \<Rightarrow> real \<Rightarrow> system" where
  "check_grid_hit osize s grid_price =
     (let price_diff = \<bar>current_sim_price s - grid_price\<bar> / grid_price in
      if grid_price \<noteq> 0 \<and> price_diff < 0.001 then
        (let amount = osize / grid_price in
         if current_sim_price s \<le> grid_price then
           snd (place_order s grid_price amount Buy Limit)
         else if positions (portfolio s) > 0 then
           snd (place_order s grid_price amount Sell Limit)
         else s)
      else s)"

fun check_grid_hits :: "real \<Rightarrow> system \<Rightarrow> real list \<Rightarrow> system" where
  "check_grid_hits osize s [] = s"
| "check_grid_hits osize s (grid_price # rest) =
     check_grid_hits osize (check_grid_hit osize s grid_price) rest"

text \<open>One round of \<^verbatim>\<open>for i in range(...)\<close>: bar \<open>i\<close> of the data.\<close>

definition sim_bar ::
  "real \<Rightarrow> system \<times> equity_sample list \<Rightarrow> nat \<times> price_bar \<Rightarrow> system \<times> equity_sample list" where
  "sim_bar osize st ib =
     (let s1 = (fst st)\<lparr>current_sim_price := b_close (snd ib), sim_time := fst ib\<rparr>;
          s2 = check_grid_hits osize s1 (grid_levels s1);
          s3 = update_portfolio_value s2 (current_sim_price s2)
      in (s3, snd st @ [\<lparr>e_timestamp = b_timestamp (snd ib),
                         e_value = total_value (portfolio s3),
                         e_price = current_sim_price s3\<rparr>]))"

fun sim_bars ::
  "real \<Rightarrow> system \<times> equity_sample list \<Rightarrow> (nat \<times> price_bar) list \<Rightarrow> system \<times> equity_sample list" where
  "sim_bars osize st [] = st"
| "sim_bars osize st (ib # rest) = sim_bars osize (sim_bar osize st ib) rest"

subsection \<open>Metrics of the simulation\<close>

definition calculate_win_rate :: "system \<Rightarrow> real" where
  "calculate_win_rate s =
     (if trades s = [] then 0
      else
        (let profitable_trades =
               length (filter (\<lambda>t. (case t_profit t of None \<Rightarrow> 0 | Some p \<Rightarrow> p) > 0) (trades s))
         in real profitable_trades / real (length (trades s)) * 100))"

text \<open>Of the metrics dictionary, the entries that depend on the trade log. The entries
  computed from the equity curve (total return, Sharpe ratio, drawdown) and the
  averages over profits are not modelled, nor is the copy of the dictionary kept in
  \<^verbatim>\<open>self.performance_metrics\<close>. An empty equity curve gives the empty dictionary.\<close>

record sim_metrics =
  m_win_rate :: real
  m_total_trades :: nat

definition calculate_performance_metrics :: "system \<Rightarrow> equity_sample list \<Rightarrow> sim_metrics option" where
  "calculate_performance_metrics s equity_curve =
     (if equity_curve = [] then None
      else Some \<lparr>m_win_rate = calculate_win_rate s, m_total_trades = length (trades s)\<rparr>)"

record sim_results =
  r_equity_curve :: "equity_sample list"
  r_trades :: "trade list"
  r_metrics :: "sim_metrics option"

text \<open>\<^verbatim>\<open>sim_data\<close> is the data frame that \<^verbatim>\<open>setup_simulation\<close> stored; reading its
  first close raises IndexError when it is empty.\<close>

definition run_simulation ::
  "system \<Rightarrow> price_bar list \<Rightarrow> sim_params \<Rightarrow> nat \<Rightarrow> py_error + (sim_results \<times> system)" where
  "run_simulation s sim_data params duration_hours =
     (case sim_data of
        [] \<Rightarrow> Inl IndexError
      | bar0 # _ \<Rightarrow>
          (let current_price = b_close bar0;
               lower = current_price * (1 - grid_range_pct params);
               upper = current_price * (1 + grid_range_pct params)
           in case calculate_grid s current_price lower upper (num_grids params)
                     (grid_type params) of
                Inl e \<Rightarrow> Inl e
              | Inr (_, s0) \<Rightarrow>
                  (let k = min (length sim_data) (duration_hours * 60);
                       (s', equity_curve) =
                          sim_bars (order_size params) (s0, [])
                            (zip [0..<k] (take k sim_data))
                   in Inr (\<lparr>r_equity_curve = equity_curve, r_trades = trades s',
                             r_metrics = calculate_performance_metrics s' equity_curve\<rparr>,
                           s'))))"

subsection \<open>Backtester\<close>

text \<open>A trade of the backtester always carries a \<^verbatim>\<open>profit\<close> entry; it is 0 for a buy.\<close>

record bt_trade =
  bt_timestamp :: int
  bt_side :: side
  bt_price :: real
  bt_amount :: real
  bt_fee :: real
  bt_profit :: real

text \<open>\<^verbatim>\<open>strategy_params\<close>: an absent key is \<open>None\<close> and takes the default of \<^verbatim>\<open>.get\<close>.\<close>

record strategy_params =
  sp_grid_range_pct :: "real option"
  sp_num_grids :: "int option"
  sp_order_size :: "real option"
  sp_fee_rate :: "real option"

definition get_default :: "'a option \<Rightarrow> 'a \<Rightarrow> 'a" where
  "get_default v d = (case v of None \<Rightarrow> d | Some x \<Rightarrow> x)"

definition avg_buy_price :: "bt_trade list \<Rightarrow> real \<Rightarrow> real" where
  "avg_buy_price trs grid_price =
     (let buys = filter (\<lambda>t. bt_side t = Buy) trs in
      if buys \<noteq> [] then sum_list (map bt_price buys) / real (length buys)
      else grid_price)"

text \<open>The body of \<^verbatim>\<open>for grid_price in grid_levels\<close> of \<^verbatim>\<open>backtest_grid_strategy\<close>, on
  the portfolio and the trade list. Over the reals \<open>amount * grid_price\<close> is the order
  size; the doubles of the source round the quotient and the product, so that a buy
  whose cost equals the cash to the last bit can be decided differently there.\<close>

definition bt_level ::
  "real \<Rightarrow> real \<Rightarrow> int \<Rightarrow> real \<Rightarrow> portfolio \<times> bt_trade list \<Rightarrow> real \<Rightarrow> portfolio \<times> bt_trade list" where
  "bt_level order_size_usdt fee_rate ts current_price st grid_price =
     (let pf = fst st; trs = snd st in
      if grid_price \<noteq> 0 \<and> \<bar>current_price - grid_price\<bar> / grid_price < 0.001 then
        (if current_price \<le> grid_price then
           (let amount = order_size_usdt / grid_price;
                cost = amount * grid_price * (1 + fee_rate)
            in if cash pf \<ge> cost then
                 (pf\<lparr>cash := cash pf - cost, positions := positions pf + amount\<rparr>,
                  trs @ [\<lparr>bt_timestamp = ts, bt_side = Buy, bt_price = grid_price,
                          bt_amount = amount, bt_fee = amount * grid_price * fee_rate,
                          bt_profit = 0\<rparr>])
               else (pf, trs))
         else
           (if positions pf > 0 then
              (let sell_amount = min (positions pf) (order_size_usdt / grid_price);
                   revenue = sell_amount * grid_price * (1 - fee_rate);
                   pf' = pf\<lparr>cash := cash pf + revenue,
                            positions := positions pf - sell_amount\<rparr>;
                   profit = (grid_price - avg_buy_price trs grid_price) * sell_amount
               in (pf', trs @ [\<lparr>bt_timestamp = ts, bt_side = Sell, bt_price = grid_price,
                                bt_amount = sell_amount,
                                bt_fee = sell_amount * grid_price * fee_rate,
                                bt_profit = profit\<rparr>]))
            else (pf, trs)))
      else (pf, trs))"

fun bt_levels ::
  "real \<Rightarrow> real \<Rightarrow> int \<Rightarrow> real \<Rightarrow> portfolio \<times> bt_trade list \<Rightarrow> real list \<Rightarrow> portfolio \<times> bt_trade list" where
  "bt_levels order_size_usdt fee_rate ts current_price st [] = st"
| "bt_levels order_size_usdt fee_rate ts current_price st (grid_price # rest) =
     bt_levels order_size_usdt fee_rate ts current_price
       (bt_level order_size_usdt fee_rate ts current_price st grid_price) rest"

record bt_state =
  bs_portfolio :: portfolio
  bs_trades :: "bt_trade list"
  bs_equity_curve :: "equity_sample list"

text \<open>The loop \<^verbatim>\<open>for i in range(len(df))\<close>; the grid is computed anew around the close of
  every bar, and a negative \<^verbatim>\<open>num_grids\<close> makes \<^verbatim>\<open>np.linspace\<close> raise at the first bar.\<close>

fun bt_bars ::
  "real \<Rightarrow> int \<Rightarrow> real \<Rightarrow> real \<Rightarrow> bt_state \<Rightarrow> price_bar list \<Rightarrow> py_error + bt_state" where
  "bt_bars grid_rng n_grids order_size_usdt fee_rate st [] = Inr st"
| "bt_bars grid_rng n_grids order_size_usdt fee_rate st (bar # rest) =
     (let current_price = b_close bar;
          lower = current_price * (1 - grid_rng);
          upper = current_price * (1 + grid_rng)
      in case np_linspace lower upper n_grids of
           Inl e \<Rightarrow> Inl e
         | Inr levels \<Rightarrow>
             (let (pf, trs) = bt_levels order_size_usdt fee_rate (b_timestamp bar) current_price
                                (bs_portfolio st, bs_trades st) levels;
                  portfolio_value = cash pf + positions pf * current_price
              in bt_bars grid_rng n_grids order_size_usdt fee_rate
                   \<lparr>bs_portfolio = pf, bs_trades = trs,
                    bs_equity_curve = bs_equity_curve st @
                      [\<lparr>e_timestamp = b_timestamp bar, e_value = portfolio_value,
                        e_price = current_price\<rparr>]\<rparr> rest))"

text \<open>Of the metrics dictionary of the backtester, the entries that depend on the trade
  list alone; fewer than two equity samples give the empty dictionary. The column
  \<^verbatim>\<open>profit\<close> exists as soon as there is a trade, and \<^verbatim>\<open>(profit > 0).mean()\<close> is the
  share of the rows of the trade table with a positive profit.\<close>

definition win_rate_pct :: "bt_trade list \<Rightarrow> real" where
  "win_rate_pct trs =
     (if trs \<noteq> [] then
        real (length (filter (\<lambda>t. bt_profit t > 0) trs)) / real (length trs) * 100
      else 0)"

record bt_metrics =
  bm_win_rate_pct :: real
  bm_total_trades :: nat

definition calculate_metrics :: "equity_sample list \<Rightarrow> bt_trade list \<Rightarrow> bt_metrics option" where
  "calculate_metrics equity_curve trs =
     (if length equity_curve < 2 then None
      else Some \<lparr>bm_win_rate_pct = win_rate_pct trs, bm_total_trades = length trs\<rparr>)"

record bt_results =
  br_equity_curve :: "equity_sample list"
  br_trades :: "bt_trade list"
  br_portfolio :: portfolio
  br_metrics :: "bt_metrics option"

definition backtest_grid_strategy ::
  "real \<Rightarrow> price_bar list \<Rightarrow> strategy_params \<Rightarrow> py_error + bt_results" where
  "backtest_grid_strategy initial_capital df params =
     (let grid_rng = get_default (sp_grid_range_pct params) 0.10;
          n_grids = get_default (sp_num_grids params) 20;
          order_size_usdt = get_default (sp_order_size params) 100;
          fee_rate = get_default (sp_fee_rate params) 0.001;
          st0 = \<lparr>bs_portfolio = \<lparr>cash = initial_capital, positions = 0,
                                  total_value = initial_capital\<rparr>,
                 bs_trades = [], bs_equity_curve = []\<rparr>
      in case bt_bars grid_rng n_grids order_size_usdt fee_rate st0 df of
           Inl e \<Rightarrow> Inl e
         | Inr st \<Rightarrow>
             Inr \<lparr>br_equity_curve = bs_equity_curve st, br_trades = bs_trades st,
                  br_portfolio = bs_portfolio st,
                  br_metrics = calculate_metrics (bs_equity_curve st) (bs_trades st)\<rparr>)"

subsection \<open>The metric as the specification words it\<close>

text \<open>The specification's win rate: among the trades whose realized profit is defined,
  which it says are the sell trades, the share with a positive profit, times 100.\<close>

definition spec_win_rate_pct :: "bt_trade list \<Rightarrow> real" where
  "spec_win_rate_pct trs =
     (let sells = filter (\<lambda>t. bt_side t = Sell) trs in
      real (length (filter (\<lambda>t. bt_profit t > 0) sells)) / real (length sells) * 100)"

subsection \<open>Sample inputs\<close>

text \<open>Concrete orders, trades and bars at which the theorems below are evaluated.\<close>

definition big_buy :: order where
  "big_buy = \<lparr>o_id = 1, o_price = 100, o_amount = 1000, o_side = Buy, o_kind = Limit,
              o_status = Filled, o_exchange_id = None\<rparr>"

definition holding :: system where
  "holding = (init_system Simulation 100)
     \<lparr>portfolio := \<lparr>cash = 10000, positions = 2, total_value = 10200\<rparr>\<rparr>"

definition buy_one :: order where
  "buy_one = \<lparr>o_id = 1, o_price = 100, o_amount = 1, o_side = Buy, o_kind = Limit,
              o_status = Filled, o_exchange_id = None\<rparr>"

definition sell_one :: order where
  "sell_one = \<lparr>o_id = 1, o_price = 100, o_amount = 1, o_side = Sell, o_kind = Limit,
              o_status = Filled, o_exchange_id = None\<rparr>"

definition small_portfolio :: portfolio where
  "small_portfolio = \<lparr>cash = 50, positions = 0.5, total_value = 100\<rparr>"

definition bar_100 :: price_bar where
  "bar_100 = \<lparr>b_timestamp = 0, b_open = 99.9, b_high = 100.5, b_low = 99.5, b_close = 100,
               b_volume = 1000\<rparr>"

definition default_params :: strategy_params where
  "default_params = \<lparr>sp_grid_range_pct = None, sp_num_grids = None, sp_order_size = None,
                     sp_fee_rate = None\<rparr>"

definition flat_portfolio :: portfolio where
  "flat_portfolio = \<lparr>cash = 10000, positions = 0, total_value = 10000\<rparr>"

definition odd_params :: sim_params where
  "odd_params = \<lparr>grid_type = ''hexagonal'', num_grids = 5, grid_range_pct = 0.1,
                  order_size = 100\<rparr>"

definition bar_101 :: price_bar where
  "bar_101 = \<lparr>b_timestamp = 3600000000, b_open = 100.9, b_high = 101.5, b_low = 100.5,
               b_close = 101, b_volume = 1000\<rparr>"

definition tight_params :: strategy_params where
  "tight_params = \<lparr>sp_grid_range_pct = Some 0.0005, sp_num_grids = Some 2,
                   sp_order_size = Some 100, sp_fee_rate = None\<rparr>"

definition tight_trades :: "bt_trade list" where
  "tight_trades =
     [\<lparr>bt_timestamp = 0, bt_side = Buy, bt_price = 2001 / 20,
       bt_amount = 2000 / 2001, bt_fee = 1 / 10, bt_profit = 0\<rparr>,
      \<lparr>bt_timestamp = 3600000000, bt_side = Sell,
       bt_price = 201899 / 2000, bt_amount = 200000 / 201899,
       bt_fee = 1 / 10, bt_profit = 179900 / 201899\<rparr>,
      \<lparr>bt_timestamp = 3600000000, bt_side = Buy,
       bt_price = 202101 / 2000, bt_amount = 200000 / 202101,
       bt_fee = 1 / 10, bt_profit = 0\<rparr>]"

definition tight_result :: bt_results where
  "tight_result =
     \<lparr>br_equity_curve =
        [\<lparr>e_timestamp = 0, e_value = 200096999 / 20010, e_price = 100\<rparr>,
         \<lparr>e_timestamp = 3600000000, e_value = 133340627001 / 13333330, e_price = 101\<rparr>],
      br_trades = tight_trades,
      br_portfolio = \<lparr>cash = 98997 / 10, positions = 134466000 / 134666633,
                       total_value = 10000\<rparr>,
      br_metrics = Some \<lparr>bm_win_rate_pct = 100 / 3, bm_total_trades = 3\<rparr>\<rparr>"

text \<open>A system whose trade log holds a trade with a profit entry, as \<^verbatim>\<open>load_results\<close>
  can install it, and one without.\<close>

definition loaded_log :: system where
  "loaded_log = (init_system Simulation 100)
     \<lparr>trades := [\<lparr>t_order_id = 1, t_price = 105, t_amount = 1, t_side = Sell,
                   t_fee = 0.105, t_profit = Some 5\<rparr>,
                  \<lparr>t_order_id = 2, t_price = 100, t_amount = 1, t_side = Buy,
                   t_fee = 0.1, t_profit = None\<rparr>]\<rparr>"

text \<open>A stand-in for numpy's generator, at which statements about any generator are
  evaluated: its state is a counter that seeding sets and every draw advances, and the
  draws depend on the counter.\<close>

definition counter_random :: "nat np_random" where
  "counter_random =
     \<lparr>seed = (\<lambda>k. nat k),
      normal = (\<lambda>st loc scale n. (\<lambda>i. loc + scale * real ((st + i) mod 3), st + n)),
      uniform = (\<lambda>st low high n. (\<lambda>i. low + (high - low) * real ((st + i) mod 2), st + n))\<rparr>"

section \<open>Properties\<close>

subsection \<open>The ledger, field by field\<close>

lemma execute_trade_trades:
  "trades (snd (execute_trade s ord)) =
     trades s @ [\<lparr>t_order_id = o_id ord, t_price = o_price ord, t_amount = o_amount ord,
                  t_side = o_side ord, t_fee = o_price ord * o_amount ord * 0.001,
                  t_profit = None\<rparr>]"
  by (simp add: execute_trade_def update_portfolio_value_def Let_def)

lemma execute_trade_cash:
  "cash (portfolio (snd (execute_trade s ord))) =
     (if o_side ord = Buy then
        (if cash (portfolio s) \<ge> o_price ord * o_amount ord + o_price ord * o_amount ord * 0.001
         then cash (portfolio s) - (o_price ord * o_amount ord + o_price ord * o_amount ord * 0.001)
         else cash (portfolio s))
      else
        (if positions (portfolio s) \<ge> o_amount ord
         then cash (portfolio s) + (o_price ord * o_amount ord - o_price ord * o_amount ord * 0.001)
         else cash (portfolio s)))"
  by (simp add: execute_trade_def update_portfolio_value_def Let_def)

lemma execute_trade_positions:
  "positions (portfolio (snd (execute_trade s ord))) =
     (if o_side ord = Buy then
        (if cash (portfolio s) \<ge> o_price ord * o_amount ord + o_price ord * o_amount ord * 0.001
         then positions (portfolio s) + o_amount ord
         else positions (portfolio s))
      else
        (if positions (portfolio s) \<ge> o_amount ord
         then positions (portfolio s) - o_amount ord
         else positions (portfolio s)))"
  by (simp add: execute_trade_def update_portfolio_value_def Let_def)

lemma execute_trade_other:
  "orders (snd (execute_trade s ord)) = orders s"
  "mode (snd (execute_trade s ord)) = mode s"
  "grid_levels (snd (execute_trade s ord)) = grid_levels s"
  "current_sim_price (snd (execute_trade s ord)) = current_sim_price s"
  "exchange (snd (execute_trade s ord)) = exchange s"
  by (simp_all add: execute_trade_def update_portfolio_value_def Let_def)

lemma place_order_sim_orders:
  "mode s = Simulation \<Longrightarrow>
   orders (snd (place_order s p a sd k)) =
     orders s @ [\<lparr>o_id = length (orders s) + 1, o_price = p, o_amount = a, o_side = sd,
                  o_kind = k, o_status = Filled, o_exchange_id = None\<rparr>]"
  by (simp add: place_order_def Let_def execute_trade_other)

lemma place_order_sim_state:
  "mode s = Simulation \<Longrightarrow>
   snd (place_order s p a sd k) =
     (snd (execute_trade s \<lparr>o_id = length (orders s) + 1, o_price = p, o_amount = a, o_side = sd,
                  o_kind = k, o_status = Filled, o_exchange_id = None\<rparr>))
     \<lparr>orders := orders s @ [\<lparr>o_id = length (orders s) + 1, o_price = p, o_amount = a, o_side = sd,
                  o_kind = k, o_status = Filled, o_exchange_id = None\<rparr>]\<rparr>"
  by (simp add: place_order_def Let_def execute_trade_other)

subsection \<open>The trade log of the simulation\<close>

text \<open>
  Claim C10. In simulation mode every order that reaches \<open>execute_trade\<close> appends a
  trade with fee \<open>price * amount * 0.001\<close> to the trade log, whether or not the solvency
  check passed: a buy that costs more than the cash, or a sell of more than the position,
  leaves cash and position as they were and still lengthens the log by one, and the
  metric \<open>total_trades\<close> counts it.
\<close>

theorem execute_trade_logs_every_order:
  "trades (snd (execute_trade s ord)) =
     trades s @ [\<lparr>t_order_id = o_id ord, t_price = o_price ord, t_amount = o_amount ord,
                  t_side = o_side ord, t_fee = o_price ord * o_amount ord * 0.001,
                  t_profit = None\<rparr>]
   \<and> (mode s = Simulation \<longrightarrow>
        trades (snd (place_order s p a sd k)) =
          trades s @ [\<lparr>t_order_id = length (orders s) + 1, t_price = p, t_amount = a,
                       t_side = sd, t_fee = p * a * 0.001, t_profit = None\<rparr>])
   \<and> ((o_side ord = Buy \<and>
         cash (portfolio s) < o_price ord * o_amount ord + o_price ord * o_amount ord * 0.001
        \<or> o_side ord = Sell \<and> positions (portfolio s) < o_amount ord) \<longrightarrow>
        cash (portfolio (snd (execute_trade s ord))) = cash (portfolio s)
        \<and> positions (portfolio (snd (execute_trade s ord))) = positions (portfolio s)
        \<and> length (trades (snd (execute_trade s ord))) = length (trades s) + 1)
   \<and> (curve \<noteq> [] \<longrightarrow>
        map_option m_total_trades
          (calculate_performance_metrics (snd (execute_trade s ord)) curve) =
        Some (length (trades s) + 1))"
proof -
  have logged: "trades (snd (execute_trade s ord)) =
     trades s @ [\<lparr>t_order_id = o_id ord, t_price = o_price ord, t_amount = o_amount ord,
                  t_side = o_side ord, t_fee = o_price ord * o_amount ord * 0.001,
                  t_profit = None\<rparr>]"
    by (rule execute_trade_trades)
  have placed: "mode s = Simulation \<longrightarrow>
        trades (snd (place_order s p a sd k)) =
          trades s @ [\<lparr>t_order_id = length (orders s) + 1, t_price = p, t_amount = a,
                       t_side = sd, t_fee = p * a * 0.001, t_profit = None\<rparr>]"
    by (simp add: place_order_sim_state execute_trade_trades)
  have unchanged: "(o_side ord = Buy \<and>
         cash (portfolio s) < o_price ord * o_amount ord + o_price ord * o_amount ord * 0.001
        \<or> o_side ord = Sell \<and> positions (portfolio s) < o_amount ord) \<longrightarrow>
        cash (portfolio (snd (execute_trade s ord))) = cash (portfolio s)
        \<and> positions (portfolio (snd (execute_trade s ord))) = positions (portfolio s)
        \<and> length (trades (snd (execute_trade s ord))) = length (trades s) + 1"
    by (auto simp: execute_trade_cash execute_trade_positions execute_trade_trades)
  have counted: "curve \<noteq> [] \<longrightarrow>
        map_option m_total_trades
          (calculate_performance_metrics (snd (execute_trade s ord)) curve) =
        Some (length (trades s) + 1)"
    by (simp add: calculate_performance_metrics_def execute_trade_trades)
  from logged placed unchanged counted show ?thesis by blast
qed

theorem execute_trade_logs_every_order_witness:
  "mode (init_system Simulation 100) = Simulation
   \<and> o_side big_buy = Buy
   \<and> cash (portfolio (init_system Simulation 100))
       < o_price big_buy * o_amount big_buy + o_price big_buy * o_amount big_buy * 0.001
   \<and> [\<lparr>e_timestamp = 0, e_value = 10000, e_price = 100\<rparr>] \<noteq> []
   \<and> cash (portfolio (snd (execute_trade (init_system Simulation 100) big_buy))) = 10000
   \<and> positions (portfolio (snd (execute_trade (init_system Simulation 100) big_buy))) = 0
   \<and> length (trades (snd (execute_trade (init_system Simulation 100) big_buy))) = 1
   \<and> trades (snd (place_order (init_system Simulation 100) 100 1000 Buy Limit)) =
       [\<lparr>t_order_id = 1, t_price = 100, t_amount = 1000, t_side = Buy, t_fee = 100,
         t_profit = None\<rparr>]
   \<and> map_option m_total_trades
       (calculate_performance_metrics (snd (execute_trade (init_system Simulation 100) big_buy))
          [\<lparr>e_timestamp = 0, e_value = 10000, e_price = 100\<rparr>]) = Some 1"
  using execute_trade_logs_every_order
          [of "init_system Simulation 100" big_buy 100 1000 Buy Limit
              "[\<lparr>e_timestamp = 0, e_value = 10000, e_price = 100\<rparr>]"]
  by (simp add: init_system_def big_buy_def)

subsection \<open>The fill of the backtester, branch by branch\<close>

lemma bt_level_buy:
  "grid_price \<noteq> 0 \<Longrightarrow> \<bar>c - grid_price\<bar> / grid_price < 0.001 \<Longrightarrow> c \<le> grid_price \<Longrightarrow>
   cash pf \<ge> sz / grid_price * grid_price * (1 + fee) \<Longrightarrow>
   bt_level sz fee ts c (pf, trs) grid_price =
     (pf\<lparr>cash := cash pf - sz / grid_price * grid_price * (1 + fee),
         positions := positions pf + sz / grid_price\<rparr>,
      trs @ [\<lparr>bt_timestamp = ts, bt_side = Buy, bt_price = grid_price,
              bt_amount = sz / grid_price, bt_fee = sz / grid_price * grid_price * fee,
              bt_profit = 0\<rparr>])"
  by (simp add: bt_level_def Let_def)

lemma bt_level_buy_rejected:
  "grid_price \<noteq> 0 \<Longrightarrow> \<bar>c - grid_price\<bar> / grid_price < 0.001 \<Longrightarrow> c \<le> grid_price \<Longrightarrow>
   cash pf < sz / grid_price * grid_price * (1 + fee) \<Longrightarrow>
   bt_level sz fee ts c (pf, trs) grid_price = (pf, trs)"
  by (simp add: bt_level_def Let_def)

lemma bt_level_sell:
  "grid_price \<noteq> 0 \<Longrightarrow> \<bar>c - grid_price\<bar> / grid_price < 0.001 \<Longrightarrow> c > grid_price \<Longrightarrow>
   positions pf > 0 \<Longrightarrow>
   bt_level sz fee ts c (pf, trs) grid_price =
     (pf\<lparr>cash := cash pf + min (positions pf) (sz / grid_price) * grid_price * (1 - fee),
         positions := positions pf - min (positions pf) (sz / grid_price)\<rparr>,
      trs @ [\<lparr>bt_timestamp = ts, bt_side = Sell, bt_price = grid_price,
              bt_amount = min (positions pf) (sz / grid_price),
              bt_fee = min (positions pf) (sz / grid_price) * grid_price * fee,
              bt_profit = (grid_price - avg_buy_price trs grid_price)
                             * min (positions pf) (sz / grid_price)\<rparr>])"
  by (simp add: bt_level_def Let_def)

lemma bt_level_sell_flat:
  "grid_price \<noteq> 0 \<Longrightarrow> \<bar>c - grid_price\<bar> / grid_price < 0.001 \<Longrightarrow> c > grid_price \<Longrightarrow>
   positions pf \<le> 0 \<Longrightarrow>
   bt_level sz fee ts c (pf, trs) grid_price = (pf, trs)"
  by (simp add: bt_level_def Let_def)

lemma bt_level_no_hit:
  "\<not> (grid_price \<noteq> 0 \<and> \<bar>c - grid_price\<bar> / grid_price < 0.001) \<Longrightarrow>
   bt_level sz fee ts c (pf, trs) grid_price = (pf, trs)"
  by (auto simp add: bt_level_def Let_def)

subsection \<open>Solvency, step by step\<close>

lemma execute_trade_solvent:
  assumes "0 \<le> cash (portfolio s)" "0 \<le> positions (portfolio s)"
    and "0 \<le> o_price ord" "0 \<le> o_amount ord"
  shows "0 \<le> cash (portfolio (snd (execute_trade s ord)))
         \<and> 0 \<le> positions (portfolio (snd (execute_trade s ord)))"
proof -
  have pa: "0 \<le> o_price ord * o_amount ord"
    using assms(3,4) by (rule mult_nonneg_nonneg)
  then have ap: "0 \<le> o_amount ord * o_price ord"
    by (simp add: mult.commute)
  show ?thesis
    using assms(1,2,4) ap
    by (simp add: execute_trade_cash execute_trade_positions)
qed

lemma fold_execute_trade_solvent:
  "0 \<le> cash (portfolio s) \<Longrightarrow> 0 \<le> positions (portfolio s) \<Longrightarrow>
   \<forall>ord \<in> set os. 0 \<le> o_price ord \<and> 0 \<le> o_amount ord \<Longrightarrow>
   0 \<le> cash (portfolio (fold (\<lambda>ord st. snd (execute_trade st ord)) os s))
   \<and> 0 \<le> positions (portfolio (fold (\<lambda>ord st. snd (execute_trade st ord)) os s))"
proof (induction os arbitrary: s)
  case Nil
  then show ?case by simp
next
  case (Cons ord os)
  from Cons.prems have step:
    "0 \<le> cash (portfolio (snd (execute_trade s ord)))
     \<and> 0 \<le> positions (portfolio (snd (execute_trade s ord)))"
    by (intro execute_trade_solvent) simp_all
  from Cons.prems have rest: "\<forall>x \<in> set os. 0 \<le> o_price x \<and> 0 \<le> o_amount x" by simp
  from Cons.IH [of "snd (execute_trade s ord)"] step rest show ?case by simp
qed

lemma bt_level_solvent:
  assumes "0 \<le> cash pf" "0 \<le> positions pf" "0 \<le> sz" "0 < g" "fee \<le> 1"
  shows "0 \<le> cash (fst (bt_level sz fee ts c (pf, trs) g))
         \<and> 0 \<le> positions (fst (bt_level sz fee ts c (pf, trs) g))"
proof -
  have a: "0 \<le> sz / g" using assms(3,4) by simp
  have m: "0 \<le> min (positions pf) (sz / g)" using a assms(2) by simp
  have "0 \<le> min (positions pf) (sz / g) * g" using m assms(4) by simp
  then have rev: "0 \<le> min (positions pf) (sz / g) * g * (1 - fee)"
    using assms(5) by simp
  have le: "min (positions pf) (sz / g) \<le> positions pf" by simp
  show ?thesis
    using assms(1,2) a rev le
    by (simp add: bt_level_def Let_def del: min.bounded_iff min_less_iff_conj)
qed


lemma bt_levels_solvent:
  "0 \<le> cash (fst st) \<Longrightarrow> 0 \<le> positions (fst st) \<Longrightarrow> 0 \<le> sz \<Longrightarrow> fee \<le> 1 \<Longrightarrow>
   \<forall>g \<in> set gs. 0 < g \<Longrightarrow>
   0 \<le> cash (fst (bt_levels sz fee ts c st gs))
   \<and> 0 \<le> positions (fst (bt_levels sz fee ts c st gs))"
proof (induction gs arbitrary: st)
  case Nil
  then show ?case by simp
next
  case (Cons g gs)
  obtain pf trs where st: "st = (pf, trs)" by (cases st)
  from Cons.prems st have step:
    "0 \<le> cash (fst (bt_level sz fee ts c st g))
     \<and> 0 \<le> positions (fst (bt_level sz fee ts c st g))"
    by (simp add: bt_level_solvent)
  from Cons.prems have rest: "\<forall>x \<in> set gs. 0 < x" by simp
  from Cons.IH [of "bt_level sz fee ts c st g"] step rest Cons.prems(3,4)
  show ?case by simp
qed

lemma linspace_list_lower:
  assumes "start \<le> stop" "x \<in> set (linspace_list start stop n)"
  shows "start \<le> x"
proof (cases "n > 1")
  case True
  define f where "f = (\<lambda>i. real i * ((stop - start) / real (n - 1)) + start)"
  from True have "linspace_list start stop n = (map f [0..<n])[n - 1 := stop]"
    by (simp add: linspace_list_def Let_def f_def)
  with assms(2) have "x \<in> insert stop (set (map f [0..<n]))"
    using set_update_subset_insert by fastforce
  then have "x = stop \<or> (\<exists>i. x = f i)"
    by auto
  then have "x = stop \<or> (\<exists>i. x = real i * ((stop - start) / real (n - 1)) + start)"
    unfolding f_def .
  then show ?thesis
  proof
    assume "x = stop"
    then show ?thesis using assms(1) by simp
  next
    assume "\<exists>i. x = real i * ((stop - start) / real (n - 1)) + start"
    then obtain i where 2: "x = real i * ((stop - start) / real (n - 1)) + start" ..
    have "0 \<le> real i * ((stop - start) / real (n - 1))"
      using assms(1) by simp
    then show ?thesis using 2 by simp
  qed
next
  case False
  with assms(2) obtain i where "x = real i * (stop - start) + start"
    by (auto simp: linspace_list_def Let_def)
  moreover have "0 \<le> real i * (stop - start)" using assms(1) by simp
  ultimately show ?thesis by simp
qed

lemma grid_around_positive:
  assumes "0 < c" "0 \<le> r" "r < 1" "np_linspace (c * (1 - r)) (c * (1 + r)) n = Inr levels"
  shows "\<forall>g \<in> set levels. 0 < g"
proof
  fix g assume g: "g \<in> set levels"
  have lo: "0 < c * (1 - r)" using assms(1,3) by simp
  have "c * (1 - r) \<le> c * (1 + r)" using assms(1,2) by simp
  moreover from assms(4) g have "g \<in> set (linspace_list (c * (1 - r)) (c * (1 + r)) (nat n))"
    by (auto simp: np_linspace_def split: if_splits)
  ultimately have "c * (1 - r) \<le> g" by (rule linspace_list_lower)
  with lo show "0 < g" by linarith
qed

lemma bt_bars_solvent:
  "0 \<le> cash (bs_portfolio st) \<Longrightarrow> 0 \<le> positions (bs_portfolio st) \<Longrightarrow>
   0 \<le> sz \<Longrightarrow> fee \<le> 1 \<Longrightarrow> 0 \<le> r \<Longrightarrow> r < 1 \<Longrightarrow>
   \<forall>bar \<in> set bars. 0 < b_close bar \<Longrightarrow>
   bt_bars r n sz fee st bars = Inr st' \<Longrightarrow>
   0 \<le> cash (bs_portfolio st') \<and> 0 \<le> positions (bs_portfolio st')"
proof (induction bars arbitrary: st)
  case Nil
  then show ?case by simp
next
  case (Cons bar bars)
  let ?c = "b_close bar"
  from Cons.prems(8) obtain levels where
    lv: "np_linspace (?c * (1 - r)) (?c * (1 + r)) n = Inr levels"
    by (auto simp: Let_def split: sum.splits)
  from Cons.prems(7) have c: "0 < ?c" by simp
  have pos: "\<forall>g \<in> set levels. 0 < g"
    using c Cons.prems(5,6) lv by (rule grid_around_positive)
  let ?res = "bt_levels sz fee (b_timestamp bar) ?c (bs_portfolio st, bs_trades st) levels"
  let ?st1 = "\<lparr>bs_portfolio = fst ?res, bs_trades = snd ?res,
               bs_equity_curve = bs_equity_curve st @
                 [\<lparr>e_timestamp = b_timestamp bar,
                   e_value = cash (fst ?res) + positions (fst ?res) * ?c, e_price = ?c\<rparr>]\<rparr>"
  have inv1: "0 \<le> cash (fst ?res) \<and> 0 \<le> positions (fst ?res)"
    using Cons.prems(1,2,3,4) pos by (intro bt_levels_solvent) simp_all
  from Cons.prems(8) lv have run: "bt_bars r n sz fee ?st1 bars = Inr st'"
    by (simp add: Let_def split_beta)
  from Cons.prems(7) have rest: "\<forall>b \<in> set bars. 0 < b_close b" by simp
  show ?case
    using Cons.IH [of ?st1] inv1 Cons.prems(3,4,5,6) rest run by simp
qed

lemma bt_bars_total:
  "0 \<le> n \<Longrightarrow> \<exists>st'. bt_bars r n sz fee st bars = Inr st'"
proof (induction bars arbitrary: st)
  case Nil
  then show ?case by simp
next
  case (Cons bar bars)
  then show ?case
    by (simp add: np_linspace_def Let_def split_beta)
qed


lemma backtest_solvent:
  assumes "0 \<le> cap"
    and "get_default (sp_fee_rate params) 0.001 \<le> 1"
    and "0 \<le> get_default (sp_order_size params) 100"
    and "0 \<le> get_default (sp_grid_range_pct params) 0.10"
    and "get_default (sp_grid_range_pct params) 0.10 < 1"
    and "0 \<le> get_default (sp_num_grids params) 20"
    and "\<forall>bar \<in> set df. 0 < b_close bar"
  shows "\<exists>res. backtest_grid_strategy cap df params = Inr res
           \<and> 0 \<le> cash (br_portfolio res) \<and> 0 \<le> positions (br_portfolio res)"
proof -
  let ?st0 = "\<lparr>bs_portfolio = \<lparr>cash = cap, positions = 0, total_value = cap\<rparr>,
               bs_trades = [], bs_equity_curve = []\<rparr>"
  let ?r = "get_default (sp_grid_range_pct params) 0.10"
  let ?n = "get_default (sp_num_grids params) 20"
  let ?sz = "get_default (sp_order_size params) 100"
  let ?fee = "get_default (sp_fee_rate params) 0.001"
  from assms(6) obtain st' where run: "bt_bars ?r ?n ?sz ?fee ?st0 df = Inr st'"
    using bt_bars_total by blast
  have "0 \<le> cash (bs_portfolio st') \<and> 0 \<le> positions (bs_portfolio st')"
    using _ _ assms(3,2,4,5,7) run
    by (rule bt_bars_solvent) (simp_all add: assms(1))
  with run show ?thesis
    by (simp add: backtest_grid_strategy_def Let_def)
qed

subsection \<open>The portfolio never goes negative\<close>

text \<open>
  Claim C1, as the code has it. From a portfolio with \<open>cash \<ge> 0\<close> and
  \<open>position \<ge> 0\<close>, any sequence of fills of non-negative price and amount through
  \<open>execute_trade\<close> ends with \<open>cash \<ge> 0\<close> and \<open>position \<ge> 0\<close>, and a fill that would
  make either negative leaves cash and position as they were. A whole backtest (closes
  positive, grid range in \<open>[0, 1)\<close>, order size not negative, fee rate at most 1,
  grid count not negative) returns, with a final portfolio that has \<open>cash \<ge> 0\<close> and
  \<open>position \<ge> 0\<close>; there a buy that the cash does not cover changes nothing, whereas a
  sell of more than the position is cut down to the whole position and applied.
\<close>

theorem portfolio_stays_solvent:
  "(0 \<le> cash (portfolio s) \<and> 0 \<le> positions (portfolio s)
      \<and> (\<forall>ord \<in> set os. 0 \<le> o_price ord \<and> 0 \<le> o_amount ord) \<longrightarrow>
      0 \<le> cash (portfolio (fold (\<lambda>ord st. snd (execute_trade st ord)) os s))
      \<and> 0 \<le> positions (portfolio (fold (\<lambda>ord st. snd (execute_trade st ord)) os s)))
   \<and> ((o_side rj = Buy
          \<and> cash (portfolio s1) - (o_price rj * o_amount rj + o_price rj * o_amount rj * 0.001) < 0
        \<or> o_side rj = Sell \<and> positions (portfolio s1) - o_amount rj < 0) \<longrightarrow>
      cash (portfolio (snd (execute_trade s1 rj))) = cash (portfolio s1)
      \<and> positions (portfolio (snd (execute_trade s1 rj))) = positions (portfolio s1))
   \<and> (0 \<le> cap \<and> get_default (sp_fee_rate params) 0.001 \<le> 1
        \<and> 0 \<le> get_default (sp_order_size params) 100
        \<and> 0 \<le> get_default (sp_grid_range_pct params) 0.10
        \<and> get_default (sp_grid_range_pct params) 0.10 < 1
        \<and> 0 \<le> get_default (sp_num_grids params) 20
        \<and> (\<forall>bar \<in> set df. 0 < b_close bar) \<longrightarrow>
      (\<exists>res. backtest_grid_strategy cap df params = Inr res
           \<and> 0 \<le> cash (br_portfolio res) \<and> 0 \<le> positions (br_portfolio res)))
   \<and> (g \<noteq> 0 \<and> \<bar>c - g\<bar> / g < 0.001 \<and> c \<le> g \<and> cash pf - sz / g * g * (1 + fee) < 0 \<longrightarrow>
      bt_level sz fee ts c (pf, trs) g = (pf, trs))
   \<and> (g' \<noteq> 0 \<and> \<bar>c' - g'\<bar> / g' < 0.001 \<and> g' < c' \<and> 0 < positions pf
        \<and> positions pf - sz / g' < 0 \<longrightarrow>
      positions (fst (bt_level sz fee ts c' (pf, trs) g')) = 0
      \<and> cash (fst (bt_level sz fee ts c' (pf, trs) g')) =
          cash pf + positions pf * g' * (1 - fee))"
proof -
  have seq: "0 \<le> cash (portfolio s) \<and> 0 \<le> positions (portfolio s)
      \<and> (\<forall>ord \<in> set os. 0 \<le> o_price ord \<and> 0 \<le> o_amount ord) \<longrightarrow>
      0 \<le> cash (portfolio (fold (\<lambda>ord st. snd (execute_trade st ord)) os s))
      \<and> 0 \<le> positions (portfolio (fold (\<lambda>ord st. snd (execute_trade st ord)) os s))"
    using fold_execute_trade_solvent [of s os] by blast
  have rej: "(o_side rj = Buy
          \<and> cash (portfolio s1) - (o_price rj * o_amount rj + o_price rj * o_amount rj * 0.001) < 0
        \<or> o_side rj = Sell \<and> positions (portfolio s1) - o_amount rj < 0) \<longrightarrow>
      cash (portfolio (snd (execute_trade s1 rj))) = cash (portfolio s1)
      \<and> positions (portfolio (snd (execute_trade s1 rj))) = positions (portfolio s1)"
    by (auto simp: execute_trade_cash execute_trade_positions)
  have run: "0 \<le> cap \<and> get_default (sp_fee_rate params) 0.001 \<le> 1
        \<and> 0 \<le> get_default (sp_order_size params) 100
        \<and> 0 \<le> get_default (sp_grid_range_pct params) 0.10
        \<and> get_default (sp_grid_range_pct params) 0.10 < 1
        \<and> 0 \<le> get_default (sp_num_grids params) 20
        \<and> (\<forall>bar \<in> set df. 0 < b_close bar) \<longrightarrow>
      (\<exists>res. backtest_grid_strategy cap df params = Inr res
           \<and> 0 \<le> cash (br_portfolio res) \<and> 0 \<le> positions (br_portfolio res))"
    using backtest_solvent [of cap params df] by blast
  have bt_rej: "g \<noteq> 0 \<and> \<bar>c - g\<bar> / g < 0.001 \<and> c \<le> g \<and> cash pf - sz / g * g * (1 + fee) < 0 \<longrightarrow>
      bt_level sz fee ts c (pf, trs) g = (pf, trs)"
  proof (intro impI, elim conjE)
    assume "g \<noteq> 0" "\<bar>c - g\<bar> / g < 0.001" "c \<le> g" "cash pf - sz / g * g * (1 + fee) < 0"
    then show "bt_level sz fee ts c (pf, trs) g = (pf, trs)"
      by (intro bt_level_buy_rejected) simp_all
  qed
  have bt_clamp: "g' \<noteq> 0 \<and> \<bar>c' - g'\<bar> / g' < 0.001 \<and> g' < c' \<and> 0 < positions pf
        \<and> positions pf - sz / g' < 0 \<longrightarrow>
      positions (fst (bt_level sz fee ts c' (pf, trs) g')) = 0
      \<and> cash (fst (bt_level sz fee ts c' (pf, trs) g')) =
          cash pf + positions pf * g' * (1 - fee)"
  proof (intro impI, elim conjE)
    assume h: "g' \<noteq> 0" "\<bar>c' - g'\<bar> / g' < 0.001" "g' < c'" "0 < positions pf"
      and less: "positions pf - sz / g' < 0"
    from less have m: "min (positions pf) (sz / g') = positions pf" by simp
    from h have eq: "bt_level sz fee ts c' (pf, trs) g' =
       (pf\<lparr>cash := cash pf + min (positions pf) (sz / g') * g' * (1 - fee),
           positions := positions pf - min (positions pf) (sz / g')\<rparr>,
        trs @ [\<lparr>bt_timestamp = ts, bt_side = Sell, bt_price = g',
                bt_amount = min (positions pf) (sz / g'),
                bt_fee = min (positions pf) (sz / g') * g' * fee,
                bt_profit = (g' - avg_buy_price trs g') * min (positions pf) (sz / g')\<rparr>])"
      by (rule bt_level_sell)
    show "positions (fst (bt_level sz fee ts c' (pf, trs) g')) = 0
      \<and> cash (fst (bt_level sz fee ts c' (pf, trs) g')) =
          cash pf + positions pf * g' * (1 - fee)"
      unfolding eq m by simp
  qed
  from seq rej run bt_rej bt_clamp show ?thesis by blast
qed

theorem portfolio_stays_solvent_witness:
  "0 \<le> cash (portfolio holding) \<and> 0 \<le> positions (portfolio holding)
   \<and> 0 \<le> o_price buy_one \<and> 0 \<le> o_amount buy_one
   \<and> 0 \<le> o_price sell_one \<and> 0 \<le> o_amount sell_one
   \<and> 0 \<le> cash (portfolio (fold (\<lambda>ord st. snd (execute_trade st ord)) [buy_one, sell_one] holding))
   \<and> 0 \<le> positions (portfolio
            (fold (\<lambda>ord st. snd (execute_trade st ord)) [buy_one, sell_one] holding))
   \<and> o_side big_buy = Buy
   \<and> cash (portfolio holding)
        - (o_price big_buy * o_amount big_buy + o_price big_buy * o_amount big_buy * 0.001) < 0
   \<and> cash (portfolio (snd (execute_trade holding big_buy))) = cash (portfolio holding)
   \<and> positions (portfolio (snd (execute_trade holding big_buy))) = positions (portfolio holding)
   \<and> (0::real) \<le> 10000 \<and> get_default (sp_fee_rate default_params) 0.001 \<le> 1
   \<and> 0 \<le> get_default (sp_order_size default_params) 100
   \<and> 0 \<le> get_default (sp_grid_range_pct default_params) 0.10
   \<and> get_default (sp_grid_range_pct default_params) 0.10 < 1
   \<and> 0 \<le> get_default (sp_num_grids default_params) 20
   \<and> 0 < b_close bar_100
   \<and> (\<exists>res. backtest_grid_strategy 10000 [bar_100] default_params = Inr res
           \<and> 0 \<le> cash (br_portfolio res) \<and> 0 \<le> positions (br_portfolio res))
   \<and> (100::real) \<noteq> 0 \<and> \<bar>100 - 100\<bar> / 100 < (0.001::real) \<and> (100::real) \<le> 100
   \<and> cash small_portfolio - 100 / 100 * 100 * (1 + 0.001) < 0
   \<and> bt_level 100 0.001 0 100 (small_portfolio, []) 100 = (small_portfolio, [])
   \<and> \<bar>100.05 - 100\<bar> / 100 < (0.001::real) \<and> (100::real) < 100.05
   \<and> 0 < positions small_portfolio \<and> positions small_portfolio - 100 / 100 < 0
   \<and> positions (fst (bt_level 100 0.001 0 100.05 (small_portfolio, []) 100)) = 0
   \<and> cash (fst (bt_level 100 0.001 0 100.05 (small_portfolio, []) 100)) = 99.95"
  using portfolio_stays_solvent
          [where s = holding and os = "[buy_one, sell_one]" and rj = big_buy and ?s1.0 = holding
             and cap = 10000 and params = default_params and df = "[bar_100]"
             and g = 100 and c = 100 and pf = small_portfolio and sz = 100 and fee = "0.001"
             and ts = 0 and trs = "[]" and g' = 100 and c' = "100.05"]
  by (simp add: holding_def buy_one_def sell_one_def big_buy_def init_system_def
        default_params_def get_default_def bar_100_def small_portfolio_def)

text \<open>
  Claim C1 as it is worded fails on the backtester: with position 0.5, the sell of
  \<open>order_size / level = 1\<close> at level 100 would drive the position below zero, and yet
  the portfolio changes, the position going to 0 and the cash from 50 to 99.95.
\<close>

theorem short_sell_is_clamped_not_rejected:
  "positions small_portfolio - 100 / 100 < 0
   \<and> fst (bt_level 100 0.001 0 100.05 (small_portfolio, []) 100) =
       \<lparr>cash = 99.95, positions = 0, total_value = 100\<rparr>
   \<and> fst (bt_level 100 0.001 0 100.05 (small_portfolio, []) 100) \<noteq> small_portfolio"
  by (simp add: bt_level_def Let_def small_portfolio_def)

subsection \<open>The order log of the matching loop\<close>

lemma place_order_sim_fst:
  "mode s = Simulation \<Longrightarrow>
   fst (place_order s p a sd k) =
     \<lparr>o_id = length (orders s) + 1, o_price = p, o_amount = a, o_side = sd,
      o_kind = k, o_status = Filled, o_exchange_id = None\<rparr>"
  by (simp add: place_order_def Let_def)

lemma place_order_keeps:
  "mode (snd (place_order s p a sd k)) = mode s"
  "current_sim_price (snd (place_order s p a sd k)) = current_sim_price s"
  "grid_levels (snd (place_order s p a sd k)) = grid_levels s"
  by (simp_all add: place_order_def Let_def execute_trade_other split: option.splits)

lemma check_grid_hit_keeps:
  "mode (check_grid_hit sz s g) = mode s"
  "current_sim_price (check_grid_hit sz s g) = current_sim_price s"
  "grid_levels (check_grid_hit sz s g) = grid_levels s"
  by (simp_all add: check_grid_hit_def Let_def place_order_keeps)

lemma check_grid_hits_keeps:
  "mode (check_grid_hits sz s gs) = mode s"
  "current_sim_price (check_grid_hits sz s gs) = current_sim_price s"
  "grid_levels (check_grid_hits sz s gs) = grid_levels s"
  by (induction gs arbitrary: s) (simp_all add: check_grid_hit_keeps)

lemma check_grid_hit_orders:
  assumes "mode s = Simulation"
  shows "orders (check_grid_hit sz s g) =
     orders s @
       (if g \<noteq> 0 \<and> \<bar>current_sim_price s - g\<bar> / g < 0.001
           \<and> (current_sim_price s \<le> g \<or> positions (portfolio s) > 0)
        then [\<lparr>o_id = length (orders s) + 1, o_price = g, o_amount = sz / g,
               o_side = (if current_sim_price s \<le> g then Buy else Sell),
               o_kind = Limit, o_status = Filled, o_exchange_id = None\<rparr>]
        else [])"
proof (cases "g \<noteq> 0 \<and> \<bar>current_sim_price s - g\<bar> / g < 0.001")
  case False
  then show ?thesis by (auto simp: check_grid_hit_def Let_def)
next
  case hit: True
  show ?thesis
  proof (cases "current_sim_price s \<le> g")
    case True
    with hit have "check_grid_hit sz s g = snd (place_order s g (sz / g) Buy Limit)"
      by (simp add: check_grid_hit_def Let_def)
    with hit True assms show ?thesis by (simp add: place_order_sim_orders)
  next
    case above: False
    show ?thesis
    proof (cases "positions (portfolio s) > 0")
      case True
      with hit above have "check_grid_hit sz s g = snd (place_order s g (sz / g) Sell Limit)"
        by (simp add: check_grid_hit_def Let_def)
      with hit above True assms show ?thesis by (simp add: place_order_sim_orders)
    next
      case False
      with hit above have "check_grid_hit sz s g = s"
        by (simp add: check_grid_hit_def Let_def)
      with hit above False show ?thesis by simp
    qed
  qed
qed

lemma check_grid_hits_all_filled:
  "mode s = Simulation \<Longrightarrow>
   \<exists>new. orders (check_grid_hits sz s gs) = orders s @ new
         \<and> (\<forall>ord \<in> set new. o_status ord = Filled)"
proof (induction gs arbitrary: s)
  case Nil
  then show ?case by simp
next
  case (Cons g gs)
  let ?s1 = "check_grid_hit sz s g"
  have m1: "mode ?s1 = Simulation" using Cons.prems by (simp add: check_grid_hit_keeps)
  from Cons.IH [OF m1] obtain new where
    new: "orders (check_grid_hits sz ?s1 gs) = orders ?s1 @ new"
         "\<forall>ord \<in> set new. o_status ord = Filled" by blast
  obtain first where first: "orders ?s1 = orders s @ first"
      "\<forall>ord \<in> set first. o_status ord = Filled"
    using check_grid_hit_orders [OF Cons.prems, of sz g] by (cases "g \<noteq> 0 \<and> \<bar>current_sim_price s - g\<bar> / g < 0.001
           \<and> (current_sim_price s \<le> g \<or> positions (portfolio s) > 0)") auto
  have "orders (check_grid_hits sz s (g # gs)) = orders s @ (first @ new)"
    using new(1) first(1) by simp
  moreover have "\<forall>ord \<in> set (first @ new). o_status ord = Filled"
    using new(2) first(2) by auto
  ultimately show ?case by blast
qed

lemma check_grid_hits_all_buys:
  "mode s = Simulation \<Longrightarrow>
   \<forall>g \<in> set gs. g \<noteq> 0 \<and> \<bar>current_sim_price s - g\<bar> / g < 0.001 \<and> current_sim_price s \<le> g \<Longrightarrow>
   length (orders (check_grid_hits sz s gs)) = length (orders s) + length gs"
proof (induction gs arbitrary: s)
  case Nil
  then show ?case by simp
next
  case (Cons g gs)
  let ?s1 = "check_grid_hit sz s g"
  have m1: "mode ?s1 = Simulation" using Cons.prems(1) by (simp add: check_grid_hit_keeps)
  have rest: "\<forall>x \<in> set gs. x \<noteq> 0 \<and> \<bar>current_sim_price ?s1 - x\<bar> / x < 0.001
                 \<and> current_sim_price ?s1 \<le> x"
  proof
    fix x assume "x \<in> set gs"
    then have "x \<in> set (g # gs)" by simp
    with Cons.prems(2) show "x \<noteq> 0 \<and> \<bar>current_sim_price ?s1 - x\<bar> / x < 0.001
                 \<and> current_sim_price ?s1 \<le> x"
      unfolding check_grid_hit_keeps by blast
  qed
  have "g \<in> set (g # gs)" by simp
  with Cons.prems(2) have hit: "g \<noteq> 0 \<and> \<bar>current_sim_price s - g\<bar> / g < 0.001
                 \<and> current_sim_price s \<le> g" by blast
  have one: "length (orders ?s1) = length (orders s) + 1"
  proof -
    from hit have cond: "g \<noteq> 0 \<and> \<bar>current_sim_price s - g\<bar> / g < 0.001
           \<and> (current_sim_price s \<le> g \<or> positions (portfolio s) > 0)" by blast
    show ?thesis
      unfolding check_grid_hit_orders [OF Cons.prems(1)] if_P [OF cond] by simp
  qed
  from Cons.IH [OF m1 rest] one show ?case by simp
qed

lemma check_grid_hit_skip:
  "\<not> (g \<noteq> 0 \<and> \<bar>current_sim_price s - g\<bar> / g < 0.001
       \<and> (current_sim_price s \<le> g \<or> positions (portfolio s) > 0)) \<Longrightarrow>
   check_grid_hit sz s g = s"
  by (auto simp: check_grid_hit_def Let_def)

lemma place_order_sim_failed:
  assumes "mode s = Simulation"
    and "sd = Buy \<and> cash (portfolio s) < p * a + p * a * 0.001
         \<or> sd = Sell \<and> positions (portfolio s) < a"
  shows "snd (place_order s p a sd k) =
     s\<lparr>orders := orders s @ [\<lparr>o_id = length (orders s) + 1, o_price = p, o_amount = a,
                               o_side = sd, o_kind = k, o_status = Filled,
                               o_exchange_id = None\<rparr>],
       trades := trades s @ [\<lparr>t_order_id = length (orders s) + 1, t_price = p, t_amount = a,
                               t_side = sd, t_fee = p * a * 0.001, t_profit = None\<rparr>],
       portfolio := (portfolio s)\<lparr>total_value :=
                      cash (portfolio s) + positions (portfolio s) * p\<rparr>\<rparr>"
  using assms
  by (auto simp: place_order_def execute_trade_def update_portfolio_value_def Let_def)

lemma check_grid_hit_trades:
  assumes "mode s = Simulation"
  shows "length (trades (check_grid_hit sz s g)) + length (orders s)
           = length (orders (check_grid_hit sz s g)) + length (trades s)"
proof (cases "g \<noteq> 0 \<and> \<bar>current_sim_price s - g\<bar> / g < 0.001
           \<and> (current_sim_price s \<le> g \<or> positions (portfolio s) > 0)")
  case False
  then have "check_grid_hit sz s g = s" by (rule check_grid_hit_skip)
  then show ?thesis by simp
next
  case True
  then have "check_grid_hit sz s g =
      snd (place_order s g (sz / g) (if current_sim_price s \<le> g then Buy else Sell) Limit)"
    by (auto simp: check_grid_hit_def Let_def)
  then show ?thesis
    using assms by (simp add: place_order_sim_state execute_trade_trades)
qed

lemma check_grid_hits_trades:
  "mode s = Simulation \<Longrightarrow>
   length (trades (check_grid_hits sz s gs)) + length (orders s)
     = length (orders (check_grid_hits sz s gs)) + length (trades s)"
proof (induction gs arbitrary: s)
  case Nil
  then show ?case by simp
next
  case (Cons g gs)
  have m1: "mode (check_grid_hit sz s g) = Simulation"
    using Cons.prems by (simp add: check_grid_hit_keeps)
  from Cons.IH [OF m1] check_grid_hit_trades [OF Cons.prems, of sz g]
  show ?case by simp
qed

lemma check_grid_hits_buy_levels:
  "mode s = Simulation \<Longrightarrow>
   map o_price (filter (\<lambda>ord. o_side ord = Buy)
        (drop (length (orders s)) (orders (check_grid_hits sz s gs)))) =
   filter (\<lambda>g. g \<noteq> 0 \<and> \<bar>current_sim_price s - g\<bar> / g < 0.001 \<and> current_sim_price s \<le> g) gs"
proof (induction gs arbitrary: s)
  case Nil
  then show ?case by simp
next
  case (Cons g gs)
  let ?s1 = "check_grid_hit sz s g"
  define hitb where "hitb = (\<lambda>c g. g \<noteq> 0 \<and> \<bar>c - g\<bar> / g < (0.001::real) \<and> c \<le> g)"
  have m1: "mode ?s1 = Simulation" using Cons.prems by (simp add: check_grid_hit_keeps)
  obtain new where new: "orders (check_grid_hits sz ?s1 gs) = orders ?s1 @ new"
    using check_grid_hits_all_filled [OF m1] by blast
  have ih: "map o_price (filter (\<lambda>ord. o_side ord = Buy) new) =
              filter (hitb (current_sim_price s)) gs"
    using Cons.IH [OF m1] unfolding new hitb_def
    by (simp add: check_grid_hit_keeps)
  define first where "first = drop (length (orders s)) (orders ?s1)"
  have o1: "orders ?s1 = orders s @ first"
    unfolding first_def check_grid_hit_orders [OF Cons.prems] by simp
  have f: "map o_price (filter (\<lambda>ord. o_side ord = Buy) first) =
             (if hitb (current_sim_price s) g then [g] else [])"
    unfolding first_def check_grid_hit_orders [OF Cons.prems] hitb_def by auto
  have "drop (length (orders s)) (orders (check_grid_hits sz s (g # gs))) = first @ new"
    using new o1 by simp
  then have "map o_price (filter (\<lambda>ord. o_side ord = Buy)
        (drop (length (orders s)) (orders (check_grid_hits sz s (g # gs))))) =
      (if hitb (current_sim_price s) g then [g] else []) @ filter (hitb (current_sim_price s)) gs"
    using f ih by simp
  also have "\<dots> = filter (hitb (current_sim_price s)) (g # gs)" by simp
  finally show ?case unfolding hitb_def .
qed


subsection \<open>An order that fails the solvency check\<close>

text \<open>
  Claim C3, as the code has it. In simulation mode \<open>place_order\<close> marks every order
  \<open>Filled\<close> before the solvency check runs, appends it to the order log and appends a
  trade record for it. When the check fails (a buy that costs more than the cash, a
  sell of more than the position) the state after the call is the state before it with
  that order, still \<open>Filled\<close>, and that trade appended and the total value marked at
  the order price: cash and position are as they were. Nothing is raised, and the loop
  over the grid levels goes on from that state with the next level: after a buy or a
  sell that failed the check the remaining levels are processed, every level that the
  close hits from below gets its buy order whatever happened at the levels before it,
  every order that a bar adds is \<open>Filled\<close> and has its trade record, and a bar whose
  close hits each level of a list from below adds one order per level.
\<close>

theorem insolvent_order_is_logged_as_filled:
  "(mode s = Simulation \<longrightarrow>
      fst (place_order s p a sd k) =
        \<lparr>o_id = length (orders s) + 1, o_price = p, o_amount = a, o_side = sd,
         o_kind = k, o_status = Filled, o_exchange_id = None\<rparr>
      \<and> orders (snd (place_order s p a sd k)) = orders s @ [fst (place_order s p a sd k)]
      \<and> trades (snd (place_order s p a sd k)) =
          trades s @ [\<lparr>t_order_id = length (orders s) + 1, t_price = p, t_amount = a,
                       t_side = sd, t_fee = p * a * 0.001, t_profit = None\<rparr>])
   \<and> (mode s = Simulation
        \<and> (sd = Buy \<and> cash (portfolio s) < p * a + p * a * 0.001
            \<or> sd = Sell \<and> positions (portfolio s) < a) \<longrightarrow>
      snd (place_order s p a sd k) =
        s\<lparr>orders := orders s @ [\<lparr>o_id = length (orders s) + 1, o_price = p, o_amount = a,
                                  o_side = sd, o_kind = k, o_status = Filled,
                                  o_exchange_id = None\<rparr>],
          trades := trades s @ [\<lparr>t_order_id = length (orders s) + 1, t_price = p,
                                  t_amount = a, t_side = sd, t_fee = p * a * 0.001,
                                  t_profit = None\<rparr>],
          portfolio := (portfolio s)\<lparr>total_value :=
                         cash (portfolio s) + positions (portfolio s) * p\<rparr>\<rparr>
      \<and> cash (portfolio (snd (place_order s p a sd k))) = cash (portfolio s)
      \<and> positions (portfolio (snd (place_order s p a sd k))) = positions (portfolio s)
      \<and> o_status (last (orders (snd (place_order s p a sd k)))) = Filled)
   \<and> (mode s = Simulation \<longrightarrow>
      (\<exists>new. orders (check_grid_hits sz s gs) = orders s @ new
             \<and> (\<forall>ord \<in> set new. o_status ord = Filled)))
   \<and> (mode s = Simulation
        \<and> (\<forall>g \<in> set gs. g \<noteq> 0 \<and> \<bar>current_sim_price s - g\<bar> / g < 0.001
                          \<and> current_sim_price s \<le> g) \<longrightarrow>
      length (orders (check_grid_hits sz s gs)) = length (orders s) + length gs)
   \<and> (mode s = Simulation \<and> gb \<noteq> 0 \<and> \<bar>current_sim_price s - gb\<bar> / gb < 0.001
        \<and> current_sim_price s \<le> gb
        \<and> cash (portfolio s) < gb * (sz / gb) + gb * (sz / gb) * 0.001 \<longrightarrow>
      check_grid_hits sz s (gb # rest) =
        check_grid_hits sz
          (s\<lparr>orders := orders s @ [\<lparr>o_id = length (orders s) + 1, o_price = gb,
                                    o_amount = sz / gb, o_side = Buy, o_kind = Limit,
                                    o_status = Filled, o_exchange_id = None\<rparr>],
            trades := trades s @ [\<lparr>t_order_id = length (orders s) + 1, t_price = gb,
                                    t_amount = sz / gb, t_side = Buy,
                                    t_fee = gb * (sz / gb) * 0.001, t_profit = None\<rparr>],
            portfolio := (portfolio s)\<lparr>total_value :=
                           cash (portfolio s) + positions (portfolio s) * gb\<rparr>\<rparr>) rest)
   \<and> (mode s = Simulation \<and> gl \<noteq> 0 \<and> \<bar>current_sim_price s - gl\<bar> / gl < 0.001
        \<and> gl < current_sim_price s \<and> 0 < positions (portfolio s)
        \<and> positions (portfolio s) < sz / gl \<longrightarrow>
      check_grid_hits sz s (gl # rest) =
        check_grid_hits sz
          (s\<lparr>orders := orders s @ [\<lparr>o_id = length (orders s) + 1, o_price = gl,
                                    o_amount = sz / gl, o_side = Sell, o_kind = Limit,
                                    o_status = Filled, o_exchange_id = None\<rparr>],
            trades := trades s @ [\<lparr>t_order_id = length (orders s) + 1, t_price = gl,
                                    t_amount = sz / gl, t_side = Sell,
                                    t_fee = gl * (sz / gl) * 0.001, t_profit = None\<rparr>],
            portfolio := (portfolio s)\<lparr>total_value :=
                           cash (portfolio s) + positions (portfolio s) * gl\<rparr>\<rparr>) rest)
   \<and> (mode s = Simulation \<longrightarrow>
      map o_price (filter (\<lambda>ord. o_side ord = Buy)
          (drop (length (orders s)) (orders (check_grid_hits sz s ls)))) =
        filter (\<lambda>g. g \<noteq> 0 \<and> \<bar>current_sim_price s - g\<bar> / g < 0.001
                     \<and> current_sim_price s \<le> g) ls
      \<and> length (trades (check_grid_hits sz s ls)) + length (orders s)
          = length (orders (check_grid_hits sz s ls)) + length (trades s))"
proof -
  have logged: "mode s = Simulation \<longrightarrow>
      fst (place_order s p a sd k) =
        \<lparr>o_id = length (orders s) + 1, o_price = p, o_amount = a, o_side = sd,
         o_kind = k, o_status = Filled, o_exchange_id = None\<rparr>
      \<and> orders (snd (place_order s p a sd k)) = orders s @ [fst (place_order s p a sd k)]
      \<and> trades (snd (place_order s p a sd k)) =
          trades s @ [\<lparr>t_order_id = length (orders s) + 1, t_price = p, t_amount = a,
                       t_side = sd, t_fee = p * a * 0.001, t_profit = None\<rparr>]"
    by (simp add: place_order_sim_fst place_order_sim_orders place_order_sim_state
          execute_trade_trades)
  have unchanged: "mode s = Simulation
        \<and> (sd = Buy \<and> cash (portfolio s) < p * a + p * a * 0.001
            \<or> sd = Sell \<and> positions (portfolio s) < a) \<longrightarrow>
      snd (place_order s p a sd k) =
        s\<lparr>orders := orders s @ [\<lparr>o_id = length (orders s) + 1, o_price = p, o_amount = a,
                                  o_side = sd, o_kind = k, o_status = Filled,
                                  o_exchange_id = None\<rparr>],
          trades := trades s @ [\<lparr>t_order_id = length (orders s) + 1, t_price = p,
                                  t_amount = a, t_side = sd, t_fee = p * a * 0.001,
                                  t_profit = None\<rparr>],
          portfolio := (portfolio s)\<lparr>total_value :=
                         cash (portfolio s) + positions (portfolio s) * p\<rparr>\<rparr>
      \<and> cash (portfolio (snd (place_order s p a sd k))) = cash (portfolio s)
      \<and> positions (portfolio (snd (place_order s p a sd k))) = positions (portfolio s)
      \<and> o_status (last (orders (snd (place_order s p a sd k)))) = Filled"
  proof (intro impI, elim conjE)
    assume m: "mode s = Simulation"
      and f: "sd = Buy \<and> cash (portfolio s) < p * a + p * a * 0.001
            \<or> sd = Sell \<and> positions (portfolio s) < a"
    note st = place_order_sim_failed [OF m f, of k]
    show "snd (place_order s p a sd k) =
        s\<lparr>orders := orders s @ [\<lparr>o_id = length (orders s) + 1, o_price = p, o_amount = a,
                                  o_side = sd, o_kind = k, o_status = Filled,
                                  o_exchange_id = None\<rparr>],
          trades := trades s @ [\<lparr>t_order_id = length (orders s) + 1, t_price = p,
                                  t_amount = a, t_side = sd, t_fee = p * a * 0.001,
                                  t_profit = None\<rparr>],
          portfolio := (portfolio s)\<lparr>total_value :=
                         cash (portfolio s) + positions (portfolio s) * p\<rparr>\<rparr>
      \<and> cash (portfolio (snd (place_order s p a sd k))) = cash (portfolio s)
      \<and> positions (portfolio (snd (place_order s p a sd k))) = positions (portfolio s)
      \<and> o_status (last (orders (snd (place_order s p a sd k)))) = Filled"
      unfolding st by simp
  qed
  have filled: "mode s = Simulation \<longrightarrow>
      (\<exists>new. orders (check_grid_hits sz s gs) = orders s @ new
             \<and> (\<forall>ord \<in> set new. o_status ord = Filled))"
    using check_grid_hits_all_filled [of s sz gs] by blast
  have continues: "mode s = Simulation
        \<and> (\<forall>g \<in> set gs. g \<noteq> 0 \<and> \<bar>current_sim_price s - g\<bar> / g < 0.001
                          \<and> current_sim_price s \<le> g) \<longrightarrow>
      length (orders (check_grid_hits sz s gs)) = length (orders s) + length gs"
    using check_grid_hits_all_buys [of s gs sz] by blast
  have after_buy: "mode s = Simulation \<and> gb \<noteq> 0 \<and> \<bar>current_sim_price s - gb\<bar> / gb < 0.001
        \<and> current_sim_price s \<le> gb
        \<and> cash (portfolio s) < gb * (sz / gb) + gb * (sz / gb) * 0.001 \<longrightarrow>
      check_grid_hits sz s (gb # rest) =
        check_grid_hits sz
          (s\<lparr>orders := orders s @ [\<lparr>o_id = length (orders s) + 1, o_price = gb,
                                    o_amount = sz / gb, o_side = Buy, o_kind = Limit,
                                    o_status = Filled, o_exchange_id = None\<rparr>],
            trades := trades s @ [\<lparr>t_order_id = length (orders s) + 1, t_price = gb,
                                    t_amount = sz / gb, t_side = Buy,
                                    t_fee = gb * (sz / gb) * 0.001, t_profit = None\<rparr>],
            portfolio := (portfolio s)\<lparr>total_value :=
                           cash (portfolio s) + positions (portfolio s) * gb\<rparr>\<rparr>) rest"
  proof (intro impI, elim conjE)
    assume m: "mode s = Simulation"
      and h: "gb \<noteq> 0" "\<bar>current_sim_price s - gb\<bar> / gb < 0.001" "current_sim_price s \<le> gb"
      and poor: "cash (portfolio s) < gb * (sz / gb) + gb * (sz / gb) * 0.001"
    from h have "check_grid_hit sz s gb = snd (place_order s gb (sz / gb) Buy Limit)"
      by (simp add: check_grid_hit_def Let_def)
    also have "\<dots> =
          s\<lparr>orders := orders s @ [\<lparr>o_id = length (orders s) + 1, o_price = gb,
                                    o_amount = sz / gb, o_side = Buy, o_kind = Limit,
                                    o_status = Filled, o_exchange_id = None\<rparr>],
            trades := trades s @ [\<lparr>t_order_id = length (orders s) + 1, t_price = gb,
                                    t_amount = sz / gb, t_side = Buy,
                                    t_fee = gb * (sz / gb) * 0.001, t_profit = None\<rparr>],
            portfolio := (portfolio s)\<lparr>total_value :=
                           cash (portfolio s) + positions (portfolio s) * gb\<rparr>\<rparr>"
      using m poor by (intro place_order_sim_failed) simp_all
    finally show "check_grid_hits sz s (gb # rest) =
        check_grid_hits sz
          (s\<lparr>orders := orders s @ [\<lparr>o_id = length (orders s) + 1, o_price = gb,
                                    o_amount = sz / gb, o_side = Buy, o_kind = Limit,
                                    o_status = Filled, o_exchange_id = None\<rparr>],
            trades := trades s @ [\<lparr>t_order_id = length (orders s) + 1, t_price = gb,
                                    t_amount = sz / gb, t_side = Buy,
                                    t_fee = gb * (sz / gb) * 0.001, t_profit = None\<rparr>],
            portfolio := (portfolio s)\<lparr>total_value :=
                           cash (portfolio s) + positions (portfolio s) * gb\<rparr>\<rparr>) rest"
      by (simp only: check_grid_hits.simps)
  qed
  have after_sell: "mode s = Simulation \<and> gl \<noteq> 0 \<and> \<bar>current_sim_price s - gl\<bar> / gl < 0.001
        \<and> gl < current_sim_price s \<and> 0 < positions (portfolio s)
        \<and> positions (portfolio s) < sz / gl \<longrightarrow>
      check_grid_hits sz s (gl # rest) =
        check_grid_hits sz
          (s\<lparr>orders := orders s @ [\<lparr>o_id = length (orders s) + 1, o_price = gl,
                                    o_amount = sz / gl, o_side = Sell, o_kind = Limit,
                                    o_status = Filled, o_exchange_id = None\<rparr>],
            trades := trades s @ [\<lparr>t_order_id = length (orders s) + 1, t_price = gl,
                                    t_amount = sz / gl, t_side = Sell,
                                    t_fee = gl * (sz / gl) * 0.001, t_profit = None\<rparr>],
            portfolio := (portfolio s)\<lparr>total_value :=
                           cash (portfolio s) + positions (portfolio s) * gl\<rparr>\<rparr>) rest"
  proof (intro impI, elim conjE)
    assume m: "mode s = Simulation"
      and h: "gl \<noteq> 0" "\<bar>current_sim_price s - gl\<bar> / gl < 0.001" "gl < current_sim_price s"
             "0 < positions (portfolio s)"
      and short: "positions (portfolio s) < sz / gl"
    from h have "check_grid_hit sz s gl = snd (place_order s gl (sz / gl) Sell Limit)"
      by (simp add: check_grid_hit_def Let_def)
    also have "\<dots> =
          s\<lparr>orders := orders s @ [\<lparr>o_id = length (orders s) + 1, o_price = gl,
                                    o_amount = sz / gl, o_side = Sell, o_kind = Limit,
                                    o_status = Filled, o_exchange_id = None\<rparr>],
            trades := trades s @ [\<lparr>t_order_id = length (orders s) + 1, t_price = gl,
                                    t_amount = sz / gl, t_side = Sell,
                                    t_fee = gl * (sz / gl) * 0.001, t_profit = None\<rparr>],
            portfolio := (portfolio s)\<lparr>total_value :=
                           cash (portfolio s) + positions (portfolio s) * gl\<rparr>\<rparr>"
      using m short by (intro place_order_sim_failed) simp_all
    finally show "check_grid_hits sz s (gl # rest) =
        check_grid_hits sz
          (s\<lparr>orders := orders s @ [\<lparr>o_id = length (orders s) + 1, o_price = gl,
                                    o_amount = sz / gl, o_side = Sell, o_kind = Limit,
                                    o_status = Filled, o_exchange_id = None\<rparr>],
            trades := trades s @ [\<lparr>t_order_id = length (orders s) + 1, t_price = gl,
                                    t_amount = sz / gl, t_side = Sell,
                                    t_fee = gl * (sz / gl) * 0.001, t_profit = None\<rparr>],
            portfolio := (portfolio s)\<lparr>total_value :=
                           cash (portfolio s) + positions (portfolio s) * gl\<rparr>\<rparr>) rest"
      by (simp only: check_grid_hits.simps)
  qed
  have every_level: "mode s = Simulation \<longrightarrow>
      map o_price (filter (\<lambda>ord. o_side ord = Buy)
          (drop (length (orders s)) (orders (check_grid_hits sz s ls)))) =
        filter (\<lambda>g. g \<noteq> 0 \<and> \<bar>current_sim_price s - g\<bar> / g < 0.001
                     \<and> current_sim_price s \<le> g) ls
      \<and> length (trades (check_grid_hits sz s ls)) + length (orders s)
          = length (orders (check_grid_hits sz s ls)) + length (trades s)"
    using check_grid_hits_buy_levels [of s sz ls] check_grid_hits_trades [of s sz ls]
    by blast
  from logged unchanged filled continues after_buy after_sell every_level
  show ?thesis by blast
qed


theorem insolvent_order_is_logged_as_filled_witness:
  "mode holding = Simulation
   \<and> fst (place_order holding 100 1000 Buy Limit) =
        \<lparr>o_id = 1, o_price = 100, o_amount = 1000, o_side = Buy,
         o_kind = Limit, o_status = Filled, o_exchange_id = None\<rparr>
   \<and> orders (snd (place_order holding 100 1000 Buy Limit)) =
        [fst (place_order holding 100 1000 Buy Limit)]
   \<and> trades (snd (place_order holding 100 1000 Buy Limit)) =
        [\<lparr>t_order_id = 1, t_price = 100, t_amount = 1000, t_side = Buy, t_fee = 100,
          t_profit = None\<rparr>]
   \<and> cash (portfolio holding) < 100 * 1000 + 100 * 1000 * 0.001
   \<and> cash (portfolio (snd (place_order holding 100 1000 Buy Limit))) = 10000
   \<and> positions (portfolio (snd (place_order holding 100 1000 Buy Limit))) = 2
   \<and> o_status (last (orders (snd (place_order holding 100 1000 Buy Limit)))) = Filled
   \<and> (100::real) \<noteq> 0 \<and> \<bar>current_sim_price holding - 100\<bar> / 100 < 0.001
   \<and> current_sim_price holding \<le> 100
   \<and> (100.05::real) \<noteq> 0 \<and> \<bar>current_sim_price holding - 100.05\<bar> / 100.05 < 0.001
   \<and> current_sim_price holding \<le> 100.05
   \<and> length (orders (check_grid_hits 1000000 holding [100, 100.05])) = 2
   \<and> cash (portfolio holding) < 100 * (1000000 / 100) + 100 * (1000000 / 100) * 0.001
   \<and> (99.95::real) \<noteq> 0 \<and> \<bar>current_sim_price holding - 99.95\<bar> / 99.95 < 0.001
   \<and> 99.95 < current_sim_price holding \<and> 0 < positions (portfolio holding)
   \<and> positions (portfolio holding) < 1000000 / 99.95
   \<and> map o_side (orders (check_grid_hits 1000000 holding [99.95, 100])) = [Sell, Buy]
   \<and> map o_status (orders (check_grid_hits 1000000 holding [99.95, 100])) = [Filled, Filled]
   \<and> map o_price (filter (\<lambda>ord. o_side ord = Buy)
         (orders (check_grid_hits 1000000 holding [99.95, 100]))) = [100]
   \<and> length (trades (check_grid_hits 1000000 holding [99.95, 100])) = 2
   \<and> cash (portfolio (check_grid_hits 1000000 holding [99.95, 100])) = 10000
   \<and> positions (portfolio (check_grid_hits 1000000 holding [99.95, 100])) = 2"
proof -
  have run: "map o_side (orders (check_grid_hits 1000000 holding [99.95, 100])) = [Sell, Buy]
     \<and> map o_status (orders (check_grid_hits 1000000 holding [99.95, 100])) = [Filled, Filled]
     \<and> map o_price (filter (\<lambda>ord. o_side ord = Buy)
           (orders (check_grid_hits 1000000 holding [99.95, 100]))) = [100]
     \<and> length (trades (check_grid_hits 1000000 holding [99.95, 100])) = 2
     \<and> cash (portfolio (check_grid_hits 1000000 holding [99.95, 100])) = 10000
     \<and> positions (portfolio (check_grid_hits 1000000 holding [99.95, 100])) = 2"
    by (simp add: holding_def init_system_def check_grid_hit_def place_order_def
          execute_trade_def update_portfolio_value_def Let_def)
  show ?thesis
    using insolvent_order_is_logged_as_filled
            [where s = holding and p = 100 and a = 1000 and sd = Buy and k = Limit
               and sz = 1000000 and gs = "[100, 100.05]" and gb = 100 and rest = "[100]"
               and gl = "99.95" and ls = "[99.95, 100]"]
          run
    by (simp add: holding_def init_system_def)
qed

text \<open>
  Claim C3 as it is worded fails: a buy of 1000 at price 100 against cash 10000 fails
  the solvency check, and the order comes back, and sits in the order log, with status
  \<open>Filled\<close>, not \<open>Rejected\<close>; a trade is logged for it as well.
\<close>

theorem insolvent_order_not_marked_rejected:
  "cash (portfolio holding) < 100 * 1000 + 100 * 1000 * 0.001
   \<and> o_status (fst (place_order holding 100 1000 Buy Limit)) = Filled
   \<and> map o_status (orders (snd (place_order holding 100 1000 Buy Limit))) = [Filled]
   \<and> length (trades (snd (place_order holding 100 1000 Buy Limit))) = 1"
  by (simp add: holding_def init_system_def place_order_def execute_trade_def
        update_portfolio_value_def Let_def)

subsection \<open>Which level yields which order\<close>

text \<open>
  Claim C4, as the code has it. For a bar with close \<open>c\<close> and a level \<open>g\<close> (a level 0
  is never hit), an order is attempted exactly when \<open>\<bar>c - g\<bar> / g < 0.001\<close>: a buy when
  \<open>c \<le> g\<close>, a sell when \<open>c > g\<close>, the sell being skipped without a trace unless the
  position is positive; otherwise the state is left as it was. The price of the order is
  the level. In the simulation the amount is \<open>order_size / g\<close> on both sides. In the
  backtester the amount of a buy is \<open>order_size / g\<close> (and the buy is recorded only if
  the cash covers it), and the amount of a sell is \<open>min position (order_size / g)\<close>.
\<close>

theorem grid_hit_decides_order:
  "(mode s = Simulation \<and> gb \<noteq> 0 \<and> \<bar>current_sim_price s - gb\<bar> / gb < 0.001
      \<and> current_sim_price s \<le> gb \<longrightarrow>
      orders (check_grid_hit sz s gb) =
        orders s @ [\<lparr>o_id = length (orders s) + 1, o_price = gb, o_amount = sz / gb,
                     o_side = Buy, o_kind = Limit, o_status = Filled,
                     o_exchange_id = None\<rparr>])
   \<and> (mode s = Simulation \<and> gs \<noteq> 0 \<and> \<bar>current_sim_price s - gs\<bar> / gs < 0.001
      \<and> gs < current_sim_price s \<and> 0 < positions (portfolio s) \<longrightarrow>
      orders (check_grid_hit sz s gs) =
        orders s @ [\<lparr>o_id = length (orders s) + 1, o_price = gs, o_amount = sz / gs,
                     o_side = Sell, o_kind = Limit, o_status = Filled,
                     o_exchange_id = None\<rparr>])
   \<and> (gs \<noteq> 0 \<and> \<bar>current_sim_price flat - gs\<bar> / gs < 0.001
      \<and> gs < current_sim_price flat \<and> positions (portfolio flat) \<le> 0 \<longrightarrow>
      check_grid_hit sz flat gs = flat)
   \<and> (\<not> (gn \<noteq> 0 \<and> \<bar>current_sim_price s - gn\<bar> / gn < 0.001) \<longrightarrow>
      check_grid_hit sz s gn = s)
   \<and> (gb \<noteq> 0 \<and> \<bar>c - gb\<bar> / gb < 0.001 \<and> c \<le> gb
      \<and> cash pf \<ge> sz / gb * gb * (1 + fee) \<longrightarrow>
      snd (bt_level sz fee ts c (pf, trs) gb) =
        trs @ [\<lparr>bt_timestamp = ts, bt_side = Buy, bt_price = gb, bt_amount = sz / gb,
                bt_fee = sz / gb * gb * fee, bt_profit = 0\<rparr>])
   \<and> (gb \<noteq> 0 \<and> \<bar>c - gb\<bar> / gb < 0.001 \<and> c \<le> gb
      \<and> cash poor < sz / gb * gb * (1 + fee) \<longrightarrow>
      bt_level sz fee ts c (poor, trs) gb = (poor, trs))
   \<and> (gs \<noteq> 0 \<and> \<bar>c - gs\<bar> / gs < 0.001 \<and> gs < c \<and> 0 < positions pf \<longrightarrow>
      snd (bt_level sz fee ts c (pf, trs) gs) =
        trs @ [\<lparr>bt_timestamp = ts, bt_side = Sell, bt_price = gs,
                bt_amount = min (positions pf) (sz / gs),
                bt_fee = min (positions pf) (sz / gs) * gs * fee,
                bt_profit = (gs - avg_buy_price trs gs) * min (positions pf) (sz / gs)\<rparr>])
   \<and> (gs \<noteq> 0 \<and> \<bar>c - gs\<bar> / gs < 0.001 \<and> gs < c \<and> positions pflat \<le> 0 \<longrightarrow>
      bt_level sz fee ts c (pflat, trs) gs = (pflat, trs))
   \<and> (\<not> (gn \<noteq> 0 \<and> \<bar>c - gn\<bar> / gn < 0.001) \<longrightarrow>
      bt_level sz fee ts c (pf, trs) gn = (pf, trs))"
proof -
  have sim_buy: "mode s = Simulation \<and> gb \<noteq> 0 \<and> \<bar>current_sim_price s - gb\<bar> / gb < 0.001
      \<and> current_sim_price s \<le> gb \<longrightarrow>
      orders (check_grid_hit sz s gb) =
        orders s @ [\<lparr>o_id = length (orders s) + 1, o_price = gb, o_amount = sz / gb,
                     o_side = Buy, o_kind = Limit, o_status = Filled,
                     o_exchange_id = None\<rparr>]"
  proof (intro impI, elim conjE)
    assume m: "mode s = Simulation"
      and h: "gb \<noteq> 0" "\<bar>current_sim_price s - gb\<bar> / gb < 0.001" "current_sim_price s \<le> gb"
    from h have cond: "gb \<noteq> 0 \<and> \<bar>current_sim_price s - gb\<bar> / gb < 0.001
           \<and> (current_sim_price s \<le> gb \<or> positions (portfolio s) > 0)" by blast
    show "orders (check_grid_hit sz s gb) =
        orders s @ [\<lparr>o_id = length (orders s) + 1, o_price = gb, o_amount = sz / gb,
                     o_side = Buy, o_kind = Limit, o_status = Filled,
                     o_exchange_id = None\<rparr>]"
      unfolding check_grid_hit_orders [OF m] if_P [OF cond] if_P [OF h(3)] ..
  qed
  have sim_sell: "mode s = Simulation \<and> gs \<noteq> 0 \<and> \<bar>current_sim_price s - gs\<bar> / gs < 0.001
      \<and> gs < current_sim_price s \<and> 0 < positions (portfolio s) \<longrightarrow>
      orders (check_grid_hit sz s gs) =
        orders s @ [\<lparr>o_id = length (orders s) + 1, o_price = gs, o_amount = sz / gs,
                     o_side = Sell, o_kind = Limit, o_status = Filled,
                     o_exchange_id = None\<rparr>]"
  proof (intro impI, elim conjE)
    assume m: "mode s = Simulation"
      and h: "gs \<noteq> 0" "\<bar>current_sim_price s - gs\<bar> / gs < 0.001" "gs < current_sim_price s"
             "0 < positions (portfolio s)"
    from h have cond: "gs \<noteq> 0 \<and> \<bar>current_sim_price s - gs\<bar> / gs < 0.001
           \<and> (current_sim_price s \<le> gs \<or> positions (portfolio s) > 0)" by blast
    from h(3) have above: "\<not> current_sim_price s \<le> gs" by simp
    show "orders (check_grid_hit sz s gs) =
        orders s @ [\<lparr>o_id = length (orders s) + 1, o_price = gs, o_amount = sz / gs,
                     o_side = Sell, o_kind = Limit, o_status = Filled,
                     o_exchange_id = None\<rparr>]"
      unfolding check_grid_hit_orders [OF m] if_P [OF cond] if_not_P [OF above] ..
  qed
  have sim_skip: "gs \<noteq> 0 \<and> \<bar>current_sim_price flat - gs\<bar> / gs < 0.001
      \<and> gs < current_sim_price flat \<and> positions (portfolio flat) \<le> 0 \<longrightarrow>
      check_grid_hit sz flat gs = flat"
  proof (intro impI, elim conjE)
    assume "gs < current_sim_price flat" "positions (portfolio flat) \<le> 0"
    then have "\<not> (gs \<noteq> 0 \<and> \<bar>current_sim_price flat - gs\<bar> / gs < 0.001
       \<and> (current_sim_price flat \<le> gs \<or> positions (portfolio flat) > 0))" by auto
    then show "check_grid_hit sz flat gs = flat" by (rule check_grid_hit_skip)
  qed
  have sim_none: "\<not> (gn \<noteq> 0 \<and> \<bar>current_sim_price s - gn\<bar> / gn < 0.001) \<longrightarrow>
      check_grid_hit sz s gn = s"
  proof
    assume "\<not> (gn \<noteq> 0 \<and> \<bar>current_sim_price s - gn\<bar> / gn < 0.001)"
    then have "\<not> (gn \<noteq> 0 \<and> \<bar>current_sim_price s - gn\<bar> / gn < 0.001
       \<and> (current_sim_price s \<le> gn \<or> positions (portfolio s) > 0))" by blast
    then show "check_grid_hit sz s gn = s" by (rule check_grid_hit_skip)
  qed
  have bt_buy: "gb \<noteq> 0 \<and> \<bar>c - gb\<bar> / gb < 0.001 \<and> c \<le> gb
      \<and> cash pf \<ge> sz / gb * gb * (1 + fee) \<longrightarrow>
      snd (bt_level sz fee ts c (pf, trs) gb) =
        trs @ [\<lparr>bt_timestamp = ts, bt_side = Buy, bt_price = gb, bt_amount = sz / gb,
                bt_fee = sz / gb * gb * fee, bt_profit = 0\<rparr>]"
  proof (intro impI, elim conjE)
    assume "gb \<noteq> 0" "\<bar>c - gb\<bar> / gb < 0.001" "c \<le> gb" "cash pf \<ge> sz / gb * gb * (1 + fee)"
    then have "bt_level sz fee ts c (pf, trs) gb =
       (pf\<lparr>cash := cash pf - sz / gb * gb * (1 + fee), positions := positions pf + sz / gb\<rparr>,
        trs @ [\<lparr>bt_timestamp = ts, bt_side = Buy, bt_price = gb, bt_amount = sz / gb,
                bt_fee = sz / gb * gb * fee, bt_profit = 0\<rparr>])"
      by (rule bt_level_buy)
    then show "snd (bt_level sz fee ts c (pf, trs) gb) =
        trs @ [\<lparr>bt_timestamp = ts, bt_side = Buy, bt_price = gb, bt_amount = sz / gb,
                bt_fee = sz / gb * gb * fee, bt_profit = 0\<rparr>]"
      by (simp only: snd_conv)
  qed
  have bt_rej: "gb \<noteq> 0 \<and> \<bar>c - gb\<bar> / gb < 0.001 \<and> c \<le> gb
      \<and> cash poor < sz / gb * gb * (1 + fee) \<longrightarrow>
      bt_level sz fee ts c (poor, trs) gb = (poor, trs)"
  proof (intro impI, elim conjE)
    assume "gb \<noteq> 0" "\<bar>c - gb\<bar> / gb < 0.001" "c \<le> gb" "cash poor < sz / gb * gb * (1 + fee)"
    then show "bt_level sz fee ts c (poor, trs) gb = (poor, trs)"
      by (rule bt_level_buy_rejected)
  qed
  have bt_sell: "gs \<noteq> 0 \<and> \<bar>c - gs\<bar> / gs < 0.001 \<and> gs < c \<and> 0 < positions pf \<longrightarrow>
      snd (bt_level sz fee ts c (pf, trs) gs) =
        trs @ [\<lparr>bt_timestamp = ts, bt_side = Sell, bt_price = gs,
                bt_amount = min (positions pf) (sz / gs),
                bt_fee = min (positions pf) (sz / gs) * gs * fee,
                bt_profit = (gs - avg_buy_price trs gs) * min (positions pf) (sz / gs)\<rparr>]"
  proof (intro impI, elim conjE)
    assume "gs \<noteq> 0" "\<bar>c - gs\<bar> / gs < 0.001" "gs < c" "0 < positions pf"
    then have "bt_level sz fee ts c (pf, trs) gs =
       (pf\<lparr>cash := cash pf + min (positions pf) (sz / gs) * gs * (1 - fee),
           positions := positions pf - min (positions pf) (sz / gs)\<rparr>,
        trs @ [\<lparr>bt_timestamp = ts, bt_side = Sell, bt_price = gs,
                bt_amount = min (positions pf) (sz / gs),
                bt_fee = min (positions pf) (sz / gs) * gs * fee,
                bt_profit = (gs - avg_buy_price trs gs) * min (positions pf) (sz / gs)\<rparr>])"
      by (rule bt_level_sell)
    then show "snd (bt_level sz fee ts c (pf, trs) gs) =
        trs @ [\<lparr>bt_timestamp = ts, bt_side = Sell, bt_price = gs,
                bt_amount = min (positions pf) (sz / gs),
                bt_fee = min (positions pf) (sz / gs) * gs * fee,
                bt_profit = (gs - avg_buy_price trs gs) * min (positions pf) (sz / gs)\<rparr>]"
      by (simp only: snd_conv)
  qed
  have bt_skip: "gs \<noteq> 0 \<and> \<bar>c - gs\<bar> / gs < 0.001 \<and> gs < c \<and> positions pflat \<le> 0 \<longrightarrow>
      bt_level sz fee ts c (pflat, trs) gs = (pflat, trs)"
  proof (intro impI, elim conjE)
    assume "gs \<noteq> 0" "\<bar>c - gs\<bar> / gs < 0.001" "gs < c" "positions pflat \<le> 0"
    then show "bt_level sz fee ts c (pflat, trs) gs = (pflat, trs)"
      by (rule bt_level_sell_flat)
  qed
  have bt_none: "\<not> (gn \<noteq> 0 \<and> \<bar>c - gn\<bar> / gn < 0.001) \<longrightarrow>
      bt_level sz fee ts c (pf, trs) gn = (pf, trs)"
    using bt_level_no_hit [of gn c sz fee ts pf trs] by blast
  from sim_buy sim_sell sim_skip sim_none bt_buy bt_rej bt_sell bt_skip bt_none
  show ?thesis by blast
qed


theorem grid_hit_decides_order_witness:
  "mode holding = Simulation \<and> (100::real) \<noteq> 0
   \<and> \<bar>current_sim_price holding - 100\<bar> / 100 < 0.001 \<and> current_sim_price holding \<le> 100
   \<and> orders (check_grid_hit 100 holding 100) =
        [\<lparr>o_id = 1, o_price = 100, o_amount = 100 / 100, o_side = Buy, o_kind = Limit,
          o_status = Filled, o_exchange_id = None\<rparr>]
   \<and> (99.95::real) \<noteq> 0 \<and> \<bar>current_sim_price holding - 99.95\<bar> / 99.95 < 0.001
   \<and> 99.95 < current_sim_price holding \<and> 0 < positions (portfolio holding)
   \<and> orders (check_grid_hit 100 holding 99.95) =
        [\<lparr>o_id = 1, o_price = 99.95, o_amount = 100 / 99.95, o_side = Sell, o_kind = Limit,
          o_status = Filled, o_exchange_id = None\<rparr>]
   \<and> \<bar>current_sim_price (init_system Simulation 100) - 99.95\<bar> / 99.95 < 0.001
   \<and> 99.95 < current_sim_price (init_system Simulation 100)
   \<and> positions (portfolio (init_system Simulation 100)) \<le> 0
   \<and> check_grid_hit 100 (init_system Simulation 100) 99.95 = init_system Simulation 100
   \<and> \<not> \<bar>current_sim_price holding - 110\<bar> / 110 < 0.001
   \<and> check_grid_hit 100 holding 110 = holding
   \<and> \<bar>100 - 100\<bar> / 100 < (0.001::real) \<and> (100::real) \<le> 100
   \<and> cash (portfolio holding) \<ge> 100 / 100 * 100 * (1 + 0.001)
   \<and> snd (bt_level 100 0.001 0 100 (portfolio holding, []) 100) =
        [\<lparr>bt_timestamp = 0, bt_side = Buy, bt_price = 100, bt_amount = 100 / 100,
          bt_fee = 100 / 100 * 100 * 0.001, bt_profit = 0\<rparr>]
   \<and> cash small_portfolio < 100 / 100 * 100 * (1 + 0.001)
   \<and> bt_level 100 0.001 0 100 (small_portfolio, []) 100 = (small_portfolio, [])
   \<and> \<bar>100 - 99.95\<bar> / 99.95 < (0.001::real) \<and> (99.95::real) < 100
   \<and> snd (bt_level 100 0.001 0 100 (portfolio holding, []) 99.95) =
        [\<lparr>bt_timestamp = 0, bt_side = Sell, bt_price = 99.95,
          bt_amount = min (positions (portfolio holding)) (100 / 99.95),
          bt_fee = min (positions (portfolio holding)) (100 / 99.95) * 99.95 * 0.001,
          bt_profit = (99.95 - avg_buy_price [] 99.95)
                        * min (positions (portfolio holding)) (100 / 99.95)\<rparr>]
   \<and> positions flat_portfolio \<le> 0
   \<and> bt_level 100 0.001 0 100 (flat_portfolio, []) 99.95 = (flat_portfolio, [])
   \<and> \<not> \<bar>100 - 110\<bar> / 110 < (0.001::real)
   \<and> bt_level 100 0.001 0 100 (portfolio holding, []) 110 = (portfolio holding, [])"
  using grid_hit_decides_order
          [where s = holding and gb = 100 and sz = 100 and gs = "99.95"
             and flat = "init_system Simulation 100" and gn = 110 and c = 100
             and pf = "portfolio holding" and fee = "0.001" and ts = 0 and trs = "[]"
             and poor = small_portfolio and pflat = flat_portfolio]
  by (simp add: holding_def init_system_def small_portfolio_def flat_portfolio_def)

text \<open>
  Claim C4 as it is worded fails on the backtester: with position 0.5, order size 100
  and level 100 hit from above, the sell that is recorded has amount 0.5, not
  \<open>order_size / level = 1\<close>.
\<close>

theorem backtest_sell_amount_is_clamped:
  "\<bar>100.05 - 100\<bar> / 100 < (0.001::real) \<and> (100::real) < 100.05
   \<and> map bt_amount (snd (bt_level 100 0.001 0 100.05 (small_portfolio, []) 100)) = [0.5]
   \<and> (100::real) / 100 = 1"
  by (simp add: bt_level_def Let_def small_portfolio_def)

subsection \<open>The linear sequence, entry by entry\<close>

lemma linspace_list_arith:
  assumes "n > 1"
  shows "linspace_list start stop n =
           map (\<lambda>i. real i * ((stop - start) / real (n - 1)) + start) [0..<n]"
proof -
  let ?f = "\<lambda>i. real i * ((stop - start) / real (n - 1)) + start"
  have "real (n - 1) \<noteq> 0" using assms by simp
  then have "?f (n - 1) = stop" by simp
  moreover have "n - 1 < n" using assms by simp
  ultimately have "(map ?f [0..<n]) ! (n - 1) = stop" by (simp del: of_nat_diff)
  then have "(map ?f [0..<n])[n - 1 := stop] = map ?f [0..<n]"
    by (metis list_update_id)
  with assms show ?thesis by (simp add: linspace_list_def Let_def del: of_nat_diff)
qed

lemma linspace_list_length: "length (linspace_list start stop n) = n"
  by (simp add: linspace_list_def Let_def)

lemma linspace_list_nth:
  "n > 1 \<Longrightarrow> i < n \<Longrightarrow>
   linspace_list start stop n ! i = real i * ((stop - start) / real (n - 1)) + start"
  by (simp add: linspace_list_arith del: of_nat_diff)

lemma linspace_list_last: "n > 1 \<Longrightarrow> last (linspace_list start stop n) = stop"
proof -
  assume n: "n > 1"
  then have ne: "linspace_list start stop n \<noteq> []"
    using linspace_list_length [of start stop n] by auto
  have "last (linspace_list start stop n) = linspace_list start stop n ! (n - 1)"
    using last_conv_nth [OF ne] by (simp add: linspace_list_length)
  also have "\<dots> = real (n - 1) * ((stop - start) / real (n - 1)) + start"
    using n by (intro linspace_list_nth) simp_all
  also have "\<dots> = stop" using n by simp
  finally show ?thesis .
qed

lemma linspace_list_step:
  assumes "n > 1" "i + 1 < n"
  shows "linspace_list start stop n ! (i + 1) - linspace_list start stop n ! i =
           (stop - start) / real (n - 1)"
proof -
  have a: "linspace_list start stop n ! (i + 1) =
             real (i + 1) * ((stop - start) / real (n - 1)) + start"
    using assms by (intro linspace_list_nth) simp_all
  have b: "linspace_list start stop n ! i = real i * ((stop - start) / real (n - 1)) + start"
    using assms by (intro linspace_list_nth) simp_all
  define d where "d = (stop - start) / real (n - 1)"
  have "real (i + 1) * d + start - (real i * d + start) = d"
    by (simp add: algebra_simps)
  then show ?thesis unfolding a b d_def .
qed

subsection \<open>The linear grid\<close>

text \<open>
  Claim C5. For a count of at least 2, the grid generator in linear mode (and the
  backtester's grid, which is the same call) returns exactly \<open>count\<close> levels, the first
  equal to the lower bound, the last equal to the upper bound, and any two neighbours
  \<open>(upper - lower) / (count - 1)\<close> apart. The bounds need not even be ordered or
  positive for this. The grid of 5 levels between 90 and 110 is 90, 95, 100, 105, 110.
\<close>

theorem linear_grid_is_arithmetic:
  assumes "2 \<le> count"
  shows "\<exists>g. calculate_grid s current_price lower upper count ''linear''
               = Inr (g, s\<lparr>grid_levels := g\<rparr>)
           \<and> np_linspace lower upper count = Inr g
           \<and> int (length g) = count
           \<and> hd g = lower
           \<and> last g = upper
           \<and> (\<forall>i. int i + 1 < count \<longrightarrow>
                 g ! (i + 1) - g ! i = (upper - lower) / (real_of_int count - 1))"
proof -
  let ?n = "nat count"
  let ?g = "linspace_list lower upper ?n"
  from assms have n: "?n > 1" by simp
  have lin: "np_linspace lower upper count = Inr ?g"
    using assms by (simp add: np_linspace_def)
  then have grid: "calculate_grid s current_price lower upper count ''linear''
                     = Inr (?g, s\<lparr>grid_levels := ?g\<rparr>)"
    by (simp add: calculate_grid_def)
  have len: "int (length ?g) = count"
    using assms by (simp add: linspace_list_length)
  have ne: "?g \<noteq> []" using n linspace_list_length [of lower upper ?n] by auto
  have "hd ?g = ?g ! 0" using ne by (simp add: hd_conv_nth)
  also have "\<dots> = real 0 * ((upper - lower) / real (?n - 1)) + lower"
    using n by (intro linspace_list_nth) simp_all
  finally have first: "hd ?g = lower" by simp
  have lst: "last ?g = upper" using n by (rule linspace_list_last)
  have cnt: "real (?n - 1) = real_of_int count - 1" using assms by simp
  have step: "\<forall>i. int i + 1 < count \<longrightarrow>
                 ?g ! (i + 1) - ?g ! i = (upper - lower) / (real_of_int count - 1)"
  proof (intro allI impI)
    fix i assume "int i + 1 < count"
    then have "i + 1 < ?n" by simp
    with n have "?g ! (i + 1) - ?g ! i = (upper - lower) / real (?n - 1)"
      by (rule linspace_list_step)
    then show "?g ! (i + 1) - ?g ! i = (upper - lower) / (real_of_int count - 1)"
      unfolding cnt .
  qed
  from grid lin len first lst step show ?thesis by blast
qed

theorem linear_grid_is_arithmetic_witness:
  "(2::int) \<le> 5
   \<and> calculate_grid (init_system Simulation 100) 100 90 110 5 ''linear''
       = Inr ([90, 95, 100, 105, 110],
              (init_system Simulation 100)\<lparr>grid_levels := [90, 95, 100, 105, 110]\<rparr>)"
proof -
  have "linspace_list 90 110 5 = [90, 95, 100, 105, 110]"
    by (simp add: linspace_list_def Let_def upt_rec)
  then have "calculate_grid (init_system Simulation 100) 100 90 110 5 ''linear''
       = Inr ([90, 95, 100, 105, 110],
              (init_system Simulation 100)\<lparr>grid_levels := [90, 95, 100, 105, 110]\<rparr>)"
    using linear_grid_is_arithmetic [of 5 "init_system Simulation 100" 100 90 110]
    by (auto simp: np_linspace_def)
  then show ?thesis by simp
qed

subsection \<open>Order of the levels, mode by mode\<close>

lemma strict_mono_map_upt:
  assumes "\<And>i j. i < j \<Longrightarrow> f i < (f j :: real)"
  shows "sorted_wrt (<) (map f [0..<n])"
proof -
  have "sorted_wrt (\<lambda>i j. f i < f j) [0..<n]"
    by (rule sorted_wrt_mono_rel [of _ "(<)"]) (simp_all add: assms)
  then show ?thesis by (simp add: sorted_wrt_map)
qed

lemma linspace_list_increasing:
  assumes "start < stop" "n > 1"
  shows "sorted_wrt (<) (linspace_list start stop n)"
proof -
  define d where "d = (stop - start) / real (n - 1)"
  have d: "0 < d" using assms by (simp add: d_def)
  have "sorted_wrt (<) (map (\<lambda>i. real i * d + start) [0..<n])"
  proof (rule strict_mono_map_upt)
    fix i j :: nat assume "i < j"
    then have "real i * d < real j * d" using d by simp
    then show "real i * d + start < real j * d + start" by simp
  qed
  then show ?thesis
    using assms(2) by (simp add: linspace_list_arith d_def del: of_nat_diff)
qed

lemma geomspace_list_powr:
  assumes "0 < start" "0 < stop" "n > 1"
  shows "geomspace_list start stop n =
           map (\<lambda>i. 10 powr (real i * ((log 10 stop - log 10 start) / real (n - 1))
                               + log 10 start)) [0..<n]"
proof -
  let ?h = "\<lambda>i. 10 powr (real i * ((log 10 stop - log 10 start) / real (n - 1))
                               + log 10 start)"
  let ?xs = "map ?h [0..<n]"
  have lin: "map (\<lambda>e. 10 powr e) (linspace_list (log 10 start) (log 10 stop) n) = ?xs"
    using assms(3) by (simp add: linspace_list_arith del: of_nat_diff)
  have "?h 0 = start" using assms(1) by simp
  then have x0: "?xs ! 0 = start" using assms(3) by (simp del: of_nat_diff)
  have "real (n - 1) \<noteq> 0" using assms(3) by simp
  then have "real (n - 1) * ((log 10 stop - log 10 start) / real (n - 1)) + log 10 start
               = log 10 stop" by simp
  then have "?h (n - 1) = stop" using assms(2) by (simp del: of_nat_diff)
  moreover have "n - 1 < n" using assms(3) by simp
  ultimately have xl: "?xs ! (n - 1) = stop" by (simp del: of_nat_diff)
  have u0: "?xs[0 := start] = ?xs" using x0 by (metis list_update_id)
  have ul: "?xs[n - 1 := stop] = ?xs" using xl by (metis list_update_id)
  have "geomspace_list start stop n = (?xs[0 := start])[n - 1 := stop]"
    using assms(3) unfolding geomspace_list_def Let_def lin by simp
  then show ?thesis unfolding u0 ul .
qed

lemma geomspace_list_increasing:
  assumes "0 < start" "start < stop" "n > 1"
  shows "sorted_wrt (<) (geomspace_list start stop n)"
proof -
  define d where "d = (log 10 stop - log 10 start) / real (n - 1)"
  have "log 10 start < log 10 stop" using assms(1,2) by simp
  then have d: "0 < d" using assms(3) by (simp add: d_def)
  have "sorted_wrt (<) (map (\<lambda>i. 10 powr (real i * d + log 10 start)) [0..<n])"
  proof (rule strict_mono_map_upt)
    fix i j :: nat assume "i < j"
    then have "real i * d < real j * d" using d by simp
    then have "real i * d + log 10 start < real j * d + log 10 start" by simp
    then show "10 powr (real i * d + log 10 start) < 10 powr (real j * d + log 10 start)"
      by simp
  qed
  moreover have "0 < stop" using assms(1,2) by simp
  ultimately show ?thesis
    using assms(1,3) by (simp add: geomspace_list_powr d_def del: of_nat_diff)
qed


lemma fib_append_sorted:
  "sorted fib \<Longrightarrow> \<forall>x \<in> set fib. 0 \<le> x \<Longrightarrow> 2 \<le> length fib \<Longrightarrow>
   sorted (fib_append k fib) \<and> (\<forall>x \<in> set (fib_append k fib). 0 \<le> x)"
proof (induction k arbitrary: fib)
  case 0
  then show ?case by simp
next
  case (Suc k)
  let ?new = "last fib + last (butlast fib)"
  from Suc.prems(3) have ne: "fib \<noteq> []" by auto
  have "length (butlast fib) = length fib - 1" by simp
  with Suc.prems(3) have "0 < length (butlast fib)" by simp
  then have ne2: "butlast fib \<noteq> []" by blast
  have "last (butlast fib) \<in> set fib"
    using ne2 by (meson in_set_butlastD last_in_set)
  with Suc.prems(2) have nn: "0 \<le> last (butlast fib)" by blast
  have top: "\<forall>x \<in> set fib. x \<le> last fib"
  proof
    fix x assume "x \<in> set fib"
    then obtain i where i: "i < length fib" "fib ! i = x" by (auto simp: in_set_conv_nth)
    then have "i \<le> length fib - 1" by simp
    moreover have "length fib - 1 < length fib" using ne by simp
    ultimately have "fib ! i \<le> fib ! (length fib - 1)"
      using Suc.prems(1) by (simp add: sorted_nth_mono)
    then show "x \<le> last fib" using i(2) ne by (simp add: last_conv_nth)
  qed
  have s1: "sorted (fib @ [?new])"
    using Suc.prems(1) top nn by (auto simp: sorted_append)
  have "last fib \<in> set fib" using ne by simp
  with Suc.prems(2) have "0 \<le> last fib" by blast
  with nn Suc.prems(2) have p1: "\<forall>x \<in> set (fib @ [?new]). 0 \<le> x" by auto
  have l1: "2 \<le> length (fib @ [?new])" using Suc.prems(3) by simp
  from Suc.IH [OF s1 p1 l1] show ?case by simp
qed

lemma fib_append_prefix: "\<exists>rest. fib_append k fib = fib @ rest"
proof (induction k arbitrary: fib)
  case 0
  then show ?case by simp
next
  case (Suc k)
  from Suc.IH [of "fib @ [last fib + last (butlast fib)]"] show ?case by auto
qed

lemma list_max_upper: "x \<in> set xs \<Longrightarrow> x \<le> list_max xs"
proof -
  assume x: "x \<in> set xs"
  then obtain y ys where xs: "xs = y # ys" by (cases xs) auto
  have "list_max xs = Max (set xs)"
    unfolding xs list_max_def using Max.set_eq_fold [of y ys] by simp
  with x show ?thesis by simp
qed


lemma fibonacci_levels_sorted:
  assumes "lower \<le> upper"
  shows "sorted (map (\<lambda>ratio. lower + ratio * (upper - lower)) (generate_fibonacci_ratios n))"
proof -
  define fib where "fib = fib_append (nat (n - 2)) [0, 1]"
  define m where "m = list_max fib"
  have good: "sorted fib \<and> (\<forall>x \<in> set fib. 0 \<le> x)"
    unfolding fib_def by (rule fib_append_sorted) simp_all
  obtain rest where "fib = [0, 1] @ rest"
    unfolding fib_def using fib_append_prefix by blast
  then have "1 \<in> set fib" by simp
  then have m: "1 \<le> m" unfolding m_def by (rule list_max_upper)
  have mono: "\<And>x y. x \<le> y \<Longrightarrow>
     lower + real_of_int x / real_of_int m * (upper - lower)
       \<le> lower + real_of_int y / real_of_int m * (upper - lower)"
  proof -
    fix x y :: int assume "x \<le> y"
    then have "real_of_int x / real_of_int m \<le> real_of_int y / real_of_int m"
      using m by (simp add: divide_right_mono)
    then have "real_of_int x / real_of_int m * (upper - lower)
                 \<le> real_of_int y / real_of_int m * (upper - lower)"
    proof (rule mult_right_mono)
      show "0 \<le> upper - lower" using assms by simp
    qed
    then show "lower + real_of_int x / real_of_int m * (upper - lower)
       \<le> lower + real_of_int y / real_of_int m * (upper - lower)" by simp
  qed
  from good have "sorted_wrt (\<le>) fib" by simp
  then have "sorted_wrt (\<lambda>x y. lower + real_of_int x / real_of_int m * (upper - lower)
       \<le> lower + real_of_int y / real_of_int m * (upper - lower)) fib"
    by (rule sorted_wrt_mono_rel [rotated]) (blast intro: mono)
  then have "sorted (map (\<lambda>f. lower + real_of_int f / real_of_int m * (upper - lower)) fib)"
    by (simp add: sorted_wrt_map)
  then show ?thesis
    by (simp add: generate_fibonacci_ratios_def Let_def fib_def m_def comp_def)
qed

lemma fibonacci_ratios_repeat:
  assumes "3 \<le> n"
  shows "1 < length (generate_fibonacci_ratios n) \<and> 2 < length (generate_fibonacci_ratios n)
         \<and> generate_fibonacci_ratios n ! 1 = generate_fibonacci_ratios n ! 2"
proof -
  from assms have "0 < nat (n - 2)" by simp
  then obtain k where k: "nat (n - 2) = Suc k"
    by (cases "nat (n - 2)") simp_all
  obtain rest where rest: "fib_append k [0, 1, 1] = [0, 1, 1] @ rest"
    using fib_append_prefix by blast
  have "fib_append (nat (n - 2)) [0, 1] = [0, 1, 1] @ rest"
    unfolding k using rest by simp
  then show ?thesis
    by (simp add: generate_fibonacci_ratios_def Let_def)
qed


lemma fibonacci_five:
  "calculate_grid s c 90 120 5 ''fibonacci'' =
     Inr ([90, 100, 100, 110, 120], s\<lparr>grid_levels := [90, 100, 100, 110, 120]\<rparr>)"
proof -
  have "fib_append (Suc (Suc (Suc 0))) [0, 1] = [0, 1, 1, 2, 3]" by simp
  moreover have "nat (5 - 2) = Suc (Suc (Suc 0))" by simp
  ultimately have "fib_append (nat (5 - 2)) [0, 1] = [0, 1, 1, 2, 3]" by (simp only:)
  then have "generate_fibonacci_ratios 5 = [0, 1 / 3, 1 / 3, 2 / 3, 1]"
    by (simp add: generate_fibonacci_ratios_def Let_def list_max_def)
  then show ?thesis by (simp add: calculate_grid_def Let_def)
qed

subsection \<open>The levels ascend\<close>

text \<open>
  Claim C6, as the code has it. For \<open>lower < upper\<close> and a count of at least 2 the
  linear grid is strictly increasing, and so is the geometric grid when \<open>lower > 0\<close>.
  The fibonacci grid is sorted ascending for every count, but not strictly: the
  Fibonacci numbers start 0, 1, 1, so from a count of 3 on its second and third level
  coincide.
\<close>

theorem grid_levels_ascend:
  "(lower < upper \<and> 2 \<le> count \<longrightarrow>
      (\<exists>g. calculate_grid s current_price lower upper count ''linear''
              = Inr (g, s\<lparr>grid_levels := g\<rparr>)
          \<and> sorted_wrt (<) g))
   \<and> (0 < lower \<and> lower < upper \<and> 2 \<le> count \<longrightarrow>
      (\<exists>g. calculate_grid s current_price lower upper count ''geometric''
              = Inr (g, s\<lparr>grid_levels := g\<rparr>)
          \<and> sorted_wrt (<) g))
   \<and> (lower < upper \<longrightarrow>
      (\<exists>g. calculate_grid s current_price lower upper count ''fibonacci''
              = Inr (g, s\<lparr>grid_levels := g\<rparr>)
          \<and> sorted g))
   \<and> (3 \<le> count \<longrightarrow>
      (\<exists>g. calculate_grid s current_price lower upper count ''fibonacci''
              = Inr (g, s\<lparr>grid_levels := g\<rparr>)
          \<and> 2 < length g \<and> g ! 1 = g ! 2))"
proof -
  have linear: "lower < upper \<and> 2 \<le> count \<longrightarrow>
      (\<exists>g. calculate_grid s current_price lower upper count ''linear''
              = Inr (g, s\<lparr>grid_levels := g\<rparr>)
          \<and> sorted_wrt (<) g)"
  proof (intro impI, elim conjE)
    assume lt: "lower < upper" and c: "2 \<le> count"
    from c have n: "nat count > 1" by simp
    have "calculate_grid s current_price lower upper count ''linear''
            = Inr (linspace_list lower upper (nat count),
                   s\<lparr>grid_levels := linspace_list lower upper (nat count)\<rparr>)"
      using c by (simp add: calculate_grid_def np_linspace_def)
    moreover have "sorted_wrt (<) (linspace_list lower upper (nat count))"
      using lt n by (rule linspace_list_increasing)
    ultimately show "\<exists>g. calculate_grid s current_price lower upper count ''linear''
              = Inr (g, s\<lparr>grid_levels := g\<rparr>) \<and> sorted_wrt (<) g" by blast
  qed
  have geometric: "0 < lower \<and> lower < upper \<and> 2 \<le> count \<longrightarrow>
      (\<exists>g. calculate_grid s current_price lower upper count ''geometric''
              = Inr (g, s\<lparr>grid_levels := g\<rparr>)
          \<and> sorted_wrt (<) g)"
  proof (intro impI, elim conjE)
    assume pos: "0 < lower" and lt: "lower < upper" and c: "2 \<le> count"
    from c have n: "nat count > 1" by simp
    have "calculate_grid s current_price lower upper count ''geometric''
            = Inr (geomspace_list lower upper (nat count),
                   s\<lparr>grid_levels := geomspace_list lower upper (nat count)\<rparr>)"
      using c pos lt by (simp add: calculate_grid_def np_geomspace_def)
    moreover have "sorted_wrt (<) (geomspace_list lower upper (nat count))"
      using pos lt n by (rule geomspace_list_increasing)
    ultimately show "\<exists>g. calculate_grid s current_price lower upper count ''geometric''
              = Inr (g, s\<lparr>grid_levels := g\<rparr>) \<and> sorted_wrt (<) g" by blast
  qed
  let ?fg = "map (\<lambda>ratio. lower + ratio * (upper - lower)) (generate_fibonacci_ratios count)"
  have fib_eq: "calculate_grid s current_price lower upper count ''fibonacci''
                  = Inr (?fg, s\<lparr>grid_levels := ?fg\<rparr>)"
    by (simp add: calculate_grid_def Let_def)
  have fibonacci: "lower < upper \<longrightarrow>
      (\<exists>g. calculate_grid s current_price lower upper count ''fibonacci''
              = Inr (g, s\<lparr>grid_levels := g\<rparr>)
          \<and> sorted g)"
  proof
    assume "lower < upper"
    then have "lower \<le> upper" by simp
    then have "sorted ?fg" by (rule fibonacci_levels_sorted)
    with fib_eq show "\<exists>g. calculate_grid s current_price lower upper count ''fibonacci''
              = Inr (g, s\<lparr>grid_levels := g\<rparr>) \<and> sorted g" by blast
  qed
  have repeat: "3 \<le> count \<longrightarrow>
      (\<exists>g. calculate_grid s current_price lower upper count ''fibonacci''
              = Inr (g, s\<lparr>grid_levels := g\<rparr>)
          \<and> 2 < length g \<and> g ! 1 = g ! 2)"
  proof
    assume "3 \<le> count"
    then have r: "1 < length (generate_fibonacci_ratios count)
         \<and> 2 < length (generate_fibonacci_ratios count)
         \<and> generate_fibonacci_ratios count ! 1 = generate_fibonacci_ratios count ! 2"
      by (rule fibonacci_ratios_repeat)
    then have "2 < length ?fg \<and> ?fg ! 1 = ?fg ! 2" by simp
    with fib_eq show "\<exists>g. calculate_grid s current_price lower upper count ''fibonacci''
              = Inr (g, s\<lparr>grid_levels := g\<rparr>) \<and> 2 < length g \<and> g ! 1 = g ! 2" by blast
  qed
  from linear geometric fibonacci repeat show ?thesis by blast
qed

theorem grid_levels_ascend_witness:
  "(0::real) < 90 \<and> (90::real) < 120 \<and> (2::int) \<le> 5 \<and> (3::int) \<le> 5
   \<and> (\<exists>g. calculate_grid (init_system Simulation 100) 100 90 120 5 ''linear''
              = Inr (g, (init_system Simulation 100)\<lparr>grid_levels := g\<rparr>)
          \<and> sorted_wrt (<) g)
   \<and> (\<exists>g. calculate_grid (init_system Simulation 100) 100 90 120 5 ''geometric''
              = Inr (g, (init_system Simulation 100)\<lparr>grid_levels := g\<rparr>)
          \<and> sorted_wrt (<) g)
   \<and> (\<exists>g. calculate_grid (init_system Simulation 100) 100 90 120 5 ''fibonacci''
              = Inr (g, (init_system Simulation 100)\<lparr>grid_levels := g\<rparr>)
          \<and> sorted g)
   \<and> (\<exists>g. calculate_grid (init_system Simulation 100) 100 90 120 5 ''fibonacci''
              = Inr (g, (init_system Simulation 100)\<lparr>grid_levels := g\<rparr>)
          \<and> 2 < length g \<and> g ! 1 = g ! 2)"
  using grid_levels_ascend
          [where lower = 90 and upper = 120 and count = 5
             and s = "init_system Simulation 100" and current_price = 100]
  by simp

text \<open>
  Claim C6 as it is worded fails in fibonacci mode: 5 levels between 90 and 120 are
  90, 100, 100, 110, 120, and the third is not greater than the second.
\<close>

theorem fibonacci_grid_repeats_a_level:
  "calculate_grid (init_system Simulation 100) 100 90 120 5 ''fibonacci'' =
     Inr ([90, 100, 100, 110, 120],
          (init_system Simulation 100)\<lparr>grid_levels := [90, 100, 100, 110, 120]\<rparr>)
   \<and> \<not> sorted_wrt (<) [90, 100, 100, 110, 120 :: real]"
  by (simp add: fibonacci_five)

subsection \<open>A run on the grid it finds\<close>

lemma sim_bar_curve_length:
  "length (snd (sim_bar sz st ib)) = length (snd st) + 1"
  by (simp add: sim_bar_def Let_def)

lemma sim_bars_curve_length:
  "length (snd (sim_bars sz st ibs)) = length (snd st) + length ibs"
  by (induction ibs arbitrary: st) (simp_all add: sim_bar_curve_length)

lemma sim_bar_empty_grid:
  assumes "grid_levels (fst st) = []"
  shows "grid_levels (fst (sim_bar sz st ib)) = []
         \<and> orders (fst (sim_bar sz st ib)) = orders (fst st)
         \<and> trades (fst (sim_bar sz st ib)) = trades (fst st)
         \<and> cash (portfolio (fst (sim_bar sz st ib))) = cash (portfolio (fst st))
         \<and> positions (portfolio (fst (sim_bar sz st ib))) = positions (portfolio (fst st))"
  using assms by (simp add: sim_bar_def Let_def update_portfolio_value_def)

lemma sim_bars_empty_grid:
  "grid_levels (fst st) = [] \<Longrightarrow>
   orders (fst (sim_bars sz st ibs)) = orders (fst st)
   \<and> trades (fst (sim_bars sz st ibs)) = trades (fst st)
   \<and> cash (portfolio (fst (sim_bars sz st ibs))) = cash (portfolio (fst st))
   \<and> positions (portfolio (fst (sim_bars sz st ibs))) = positions (portfolio (fst st))"
proof (induction ibs arbitrary: st)
  case Nil
  then show ?case by simp
next
  case (Cons ib ibs)
  from sim_bar_empty_grid [OF Cons.prems, of sz ib] Cons.IH [of "sim_bar sz st ib"]
  show ?case by simp
qed

lemma calculate_grid_other:
  "gt \<noteq> ''linear'' \<Longrightarrow> gt \<noteq> ''geometric'' \<Longrightarrow> gt \<noteq> ''fibonacci'' \<Longrightarrow>
   calculate_grid s cp lo up n gt = Inr (grid_levels s, s)"
  by (simp add: calculate_grid_def)

lemma run_simulation_other:
  assumes "grid_type params \<noteq> ''linear''" "grid_type params \<noteq> ''geometric''"
    "grid_type params \<noteq> ''fibonacci''" "sim_data \<noteq> []"
  shows "run_simulation s sim_data params hours =
     Inr (\<lparr>r_equity_curve = snd (sim_bars (order_size params) (s, [])
               (zip [0..<min (length sim_data) (hours * 60)]
                    (take (min (length sim_data) (hours * 60)) sim_data))),
           r_trades = trades (fst (sim_bars (order_size params) (s, [])
               (zip [0..<min (length sim_data) (hours * 60)]
                    (take (min (length sim_data) (hours * 60)) sim_data)))),
           r_metrics = calculate_performance_metrics
              (fst (sim_bars (order_size params) (s, [])
               (zip [0..<min (length sim_data) (hours * 60)]
                    (take (min (length sim_data) (hours * 60)) sim_data))))
              (snd (sim_bars (order_size params) (s, [])
               (zip [0..<min (length sim_data) (hours * 60)]
                    (take (min (length sim_data) (hours * 60)) sim_data))))\<rparr>,
          fst (sim_bars (order_size params) (s, [])
               (zip [0..<min (length sim_data) (hours * 60)]
                    (take (min (length sim_data) (hours * 60)) sim_data))))"
proof -
  from assms(4) obtain bar0 rest where d: "sim_data = bar0 # rest" by (cases sim_data) auto
  show ?thesis
    unfolding run_simulation_def d
    by (simp add: calculate_grid_other [OF assms(1,2,3)] Let_def split_beta del: take_Suc_Cons)
qed

subsection \<open>A spacing mode that the generator does not know\<close>

text \<open>
  Claim C7, as the code has it. For a spacing mode other than linear, geometric and
  fibonacci, \<open>calculate_grid\<close> reports no error: it leaves the state as it was and
  returns the grid levels stored before the call. The run that called it goes on and
  consumes every bar on that grid; on a system whose grid is still empty it places no
  order and records no trade, and cash and position stay what they were.
\<close>

theorem unknown_mode_keeps_old_grid:
  "(gt \<noteq> ''linear'' \<and> gt \<noteq> ''geometric'' \<and> gt \<noteq> ''fibonacci'' \<longrightarrow>
      calculate_grid s cp lo up n gt = Inr (grid_levels s, s))
   \<and> (grid_type params \<noteq> ''linear'' \<and> grid_type params \<noteq> ''geometric''
        \<and> grid_type params \<noteq> ''fibonacci'' \<and> sim_data \<noteq> [] \<longrightarrow>
      (\<exists>r s'. run_simulation s sim_data params hours = Inr (r, s')
          \<and> length (r_equity_curve r) = min (length sim_data) (hours * 60)
          \<and> grid_levels s' = grid_levels s))
   \<and> (grid_type params \<noteq> ''linear'' \<and> grid_type params \<noteq> ''geometric''
        \<and> grid_type params \<noteq> ''fibonacci'' \<and> sim_data \<noteq> [] \<and> grid_levels s = [] \<longrightarrow>
      (\<exists>r s'. run_simulation s sim_data params hours = Inr (r, s')
          \<and> orders s' = orders s \<and> trades s' = trades s \<and> r_trades r = trades s
          \<and> cash (portfolio s') = cash (portfolio s)
          \<and> positions (portfolio s') = positions (portfolio s)))"
proof -
  let ?k = "min (length sim_data) (hours * 60)"
  let ?run = "sim_bars (order_size params) (s, []) (zip [0..<?k] (take ?k sim_data))"
  have grid: "gt \<noteq> ''linear'' \<and> gt \<noteq> ''geometric'' \<and> gt \<noteq> ''fibonacci'' \<longrightarrow>
      calculate_grid s cp lo up n gt = Inr (grid_levels s, s)"
    using calculate_grid_other [of gt s cp lo up n] by blast
  have levels_kept: "\<And>ibs st. grid_levels (fst (sim_bars (order_size params) st ibs))
                        = grid_levels (fst st)"
  proof -
    fix ibs st
    show "grid_levels (fst (sim_bars (order_size params) st ibs)) = grid_levels (fst st)"
      by (induction ibs arbitrary: st)
         (simp_all add: sim_bar_def Let_def update_portfolio_value_def check_grid_hits_keeps)
  qed
  have runs: "grid_type params \<noteq> ''linear'' \<and> grid_type params \<noteq> ''geometric''
        \<and> grid_type params \<noteq> ''fibonacci'' \<and> sim_data \<noteq> [] \<longrightarrow>
      (\<exists>r s'. run_simulation s sim_data params hours = Inr (r, s')
          \<and> length (r_equity_curve r) = min (length sim_data) (hours * 60)
          \<and> grid_levels s' = grid_levels s)"
  proof (intro impI, elim conjE)
    assume h: "grid_type params \<noteq> ''linear''" "grid_type params \<noteq> ''geometric''"
      "grid_type params \<noteq> ''fibonacci''" "sim_data \<noteq> []"
    have len: "length (snd ?run) = ?k"
      by (simp add: sim_bars_curve_length)
    have lv: "grid_levels (fst ?run) = grid_levels s"
      using levels_kept [of "(s, [])"] by simp
    show "\<exists>r s'. run_simulation s sim_data params hours = Inr (r, s')
          \<and> length (r_equity_curve r) = min (length sim_data) (hours * 60)
          \<and> grid_levels s' = grid_levels s"
      unfolding run_simulation_other [OF h] using len lv by simp
  qed
  have idle: "grid_type params \<noteq> ''linear'' \<and> grid_type params \<noteq> ''geometric''
        \<and> grid_type params \<noteq> ''fibonacci'' \<and> sim_data \<noteq> [] \<and> grid_levels s = [] \<longrightarrow>
      (\<exists>r s'. run_simulation s sim_data params hours = Inr (r, s')
          \<and> orders s' = orders s \<and> trades s' = trades s \<and> r_trades r = trades s
          \<and> cash (portfolio s') = cash (portfolio s)
          \<and> positions (portfolio s') = positions (portfolio s))"
  proof (intro impI, elim conjE)
    assume h: "grid_type params \<noteq> ''linear''" "grid_type params \<noteq> ''geometric''"
      "grid_type params \<noteq> ''fibonacci''" "sim_data \<noteq> []"
      and e: "grid_levels s = []"
    have same: "orders (fst ?run) = orders s \<and> trades (fst ?run) = trades s
        \<and> cash (portfolio (fst ?run)) = cash (portfolio s)
        \<and> positions (portfolio (fst ?run)) = positions (portfolio s)"
      using sim_bars_empty_grid [of "(s, [])" "order_size params"] e by simp
    show "\<exists>r s'. run_simulation s sim_data params hours = Inr (r, s')
          \<and> orders s' = orders s \<and> trades s' = trades s \<and> r_trades r = trades s
          \<and> cash (portfolio s') = cash (portfolio s)
          \<and> positions (portfolio s') = positions (portfolio s)"
      unfolding run_simulation_other [OF h] using same by simp
  qed
  from grid runs idle show ?thesis by blast
qed

theorem unknown_mode_keeps_old_grid_witness:
  "''hexagonal'' \<noteq> ''linear'' \<and> ''hexagonal'' \<noteq> ''geometric'' \<and> ''hexagonal'' \<noteq> ''fibonacci''
   \<and> calculate_grid (init_system Simulation 100) 100 90 110 5 ''hexagonal''
        = Inr ([], init_system Simulation 100)
   \<and> grid_type odd_params = ''hexagonal'' \<and> [bar_100] \<noteq> []
   \<and> grid_levels (init_system Simulation 100) = []
   \<and> (\<exists>r s'. run_simulation (init_system Simulation 100) [bar_100] odd_params 24 = Inr (r, s')
          \<and> length (r_equity_curve r) = 1 \<and> grid_levels s' = [])
   \<and> (\<exists>r s'. run_simulation (init_system Simulation 100) [bar_100] odd_params 24 = Inr (r, s')
          \<and> orders s' = [] \<and> trades s' = [] \<and> r_trades r = []
          \<and> cash (portfolio s') = 10000 \<and> positions (portfolio s') = 0)"
  using unknown_mode_keeps_old_grid
          [where gt = "''hexagonal''" and s = "init_system Simulation 100" and cp = 100
             and lo = 90 and up = 110 and n = 5 and params = odd_params
             and sim_data = "[bar_100]" and hours = 24]
  by (simp add: odd_params_def init_system_def)

text \<open>
  Claim C7 as it is worded fails: for the mode \<open>hexagonal\<close> the generator of a fresh
  system answers with the empty grid and no error, and the run over one bar completes
  with one equity sample and no trade.
\<close>

theorem unknown_mode_raises_nothing:
  "calculate_grid (init_system Simulation 100) 100 90 110 5 ''hexagonal''
     = Inr ([], init_system Simulation 100)
   \<and> run_simulation (init_system Simulation 100) [bar_100] odd_params 24
     = Inr (\<lparr>r_equity_curve = [\<lparr>e_timestamp = 0, e_value = 10000, e_price = 100\<rparr>],
             r_trades = [],
             r_metrics = Some \<lparr>m_win_rate = 0, m_total_trades = 0\<rparr>\<rparr>,
            (init_system Simulation 100)\<lparr>current_sim_price := 100, sim_time := 0\<rparr>)"
  by (simp add: run_simulation_def calculate_grid_def odd_params_def bar_100_def
        init_system_def sim_bar_def update_portfolio_value_def Let_def
        calculate_performance_metrics_def calculate_win_rate_def)

subsection \<open>The trades a backtest records\<close>

lemma bt_level_buys_profit:
  assumes "\<forall>t \<in> set (snd st). bt_side t = Buy \<longrightarrow> bt_profit t = 0"
  shows "\<forall>t \<in> set (snd (bt_level sz fee ts c st g)). bt_side t = Buy \<longrightarrow> bt_profit t = 0"
  using assms by (auto simp: bt_level_def Let_def)

lemma bt_levels_buys_profit:
  "\<forall>t \<in> set (snd st). bt_side t = Buy \<longrightarrow> bt_profit t = 0 \<Longrightarrow>
   \<forall>t \<in> set (snd (bt_levels sz fee ts c st gs)). bt_side t = Buy \<longrightarrow> bt_profit t = 0"
proof (induction gs arbitrary: st)
  case Nil
  then show ?case by simp
next
  case (Cons g gs)
  from Cons.IH [OF bt_level_buys_profit [OF Cons.prems, of sz fee ts c g]]
  show ?case by simp
qed

lemma bt_bars_buys_profit:
  "\<forall>t \<in> set (bs_trades st). bt_side t = Buy \<longrightarrow> bt_profit t = 0 \<Longrightarrow>
   bt_bars r n sz fee st bars = Inr st' \<Longrightarrow>
   \<forall>t \<in> set (bs_trades st'). bt_side t = Buy \<longrightarrow> bt_profit t = 0"
proof (induction bars arbitrary: st)
  case Nil
  then show ?case by simp
next
  case (Cons bar bars)
  let ?c = "b_close bar"
  from Cons.prems(2) obtain levels where
    lv: "np_linspace (?c * (1 - r)) (?c * (1 + r)) n = Inr levels"
    by (auto simp: Let_def split: sum.splits)
  let ?res = "bt_levels sz fee (b_timestamp bar) ?c (bs_portfolio st, bs_trades st) levels"
  let ?st1 = "\<lparr>bs_portfolio = fst ?res, bs_trades = snd ?res,
               bs_equity_curve = bs_equity_curve st @
                 [\<lparr>e_timestamp = b_timestamp bar,
                   e_value = cash (fst ?res) + positions (fst ?res) * ?c, e_price = ?c\<rparr>]\<rparr>"
  have inv1: "\<forall>t \<in> set (bs_trades ?st1). bt_side t = Buy \<longrightarrow> bt_profit t = 0"
    using bt_levels_buys_profit [of "(bs_portfolio st, bs_trades st)"] Cons.prems(1) by simp
  from Cons.prems(2) lv have run: "bt_bars r n sz fee ?st1 bars = Inr st'"
    by (simp add: Let_def split_beta)
  from Cons.IH [OF inv1 run] show ?case .
qed

lemma wins_are_sells:
  assumes "\<forall>t \<in> set trs. bt_side t = Buy \<longrightarrow> bt_profit t = 0"
  shows "filter (\<lambda>t. bt_profit t > 0) trs = filter (\<lambda>t. bt_profit t > 0) (filter (\<lambda>t. bt_side t = Sell) trs)"
proof -
  have "\<And>t. t \<in> set trs \<Longrightarrow> (bt_profit t > 0) = (bt_side t = Sell \<and> bt_profit t > 0)"
  proof -
    fix t assume "t \<in> set trs"
    with assms have "bt_side t = Buy \<longrightarrow> bt_profit t = 0" by blast
    then show "(bt_profit t > 0) = (bt_side t = Sell \<and> bt_profit t > 0)"
      by (cases "bt_side t") auto
  qed
  then have "filter (\<lambda>t. bt_profit t > 0) trs = filter (\<lambda>t. bt_side t = Sell \<and> bt_profit t > 0) trs"
    by (rule filter_cong [OF refl])
  then show ?thesis by (simp add: conj_commute)
qed


lemma two_levels: "np_linspace lo hi 2 = Inr [lo, hi]"
  by (simp add: np_linspace_def linspace_list_def Let_def upt_rec)

lemma tight_backtest:
  "backtest_grid_strategy 10000 [bar_100, bar_101] tight_params = Inr tight_result"
  by (simp add: backtest_grid_strategy_def tight_params_def get_default_def bar_100_def
        bar_101_def two_levels Let_def bt_level_def avg_buy_price_def calculate_metrics_def
        win_rate_pct_def tight_result_def tight_trades_def)

subsection \<open>The win rate\<close>

text \<open>
  Claim C8, as the code has it. For every non-empty trade list \<open>win_rate_pct\<close> is the
  number of trades with a positive profit divided by the number of all trades of the
  list, times 100, and it is 0 for the empty list. A backtest records every buy with
  profit 0, so the trades with a positive profit are sells, but the buys count in the
  denominator: the value is the specification's win rate scaled by the share of sells
  among the trades. \<open>calculate_win_rate\<close> of the simulation is the same ratio over
  \<^verbatim>\<open>self.trades\<close>, a trade without a profit entry counting as not won; the trades
  that the simulation itself logs carry no profit and give 0.
\<close>

theorem win_rate_over_all_trades:
  "win_rate_pct [] = 0
   \<and> (trs \<noteq> [] \<longrightarrow>
      win_rate_pct trs =
        real (length (filter (\<lambda>t. 0 < bt_profit t) trs)) / real (length trs) * 100)
   \<and> (trs \<noteq> [] \<and> (\<forall>t \<in> set trs. bt_side t = Buy \<longrightarrow> bt_profit t = 0) \<longrightarrow>
      win_rate_pct trs =
        real (length (filter (\<lambda>t. bt_profit t > 0) (filter (\<lambda>t. bt_side t = Sell) trs)))
          / real (length trs) * 100)
   \<and> (filter (\<lambda>t. bt_side t = Sell) trs \<noteq> []
        \<and> (\<forall>t \<in> set trs. bt_side t = Buy \<longrightarrow> bt_profit t = 0) \<longrightarrow>
      win_rate_pct trs * real (length trs) =
        spec_win_rate_pct trs * real (length (filter (\<lambda>t. bt_side t = Sell) trs)))
   \<and> (2 \<le> length curve \<longrightarrow>
      calculate_metrics curve trs =
        Some \<lparr>bm_win_rate_pct = win_rate_pct trs, bm_total_trades = length trs\<rparr>)
   \<and> (backtest_grid_strategy cap df params = Inr res \<longrightarrow>
      (\<forall>t \<in> set (br_trades res). bt_side t = Buy \<longrightarrow> bt_profit t = 0)
      \<and> (2 \<le> length df \<longrightarrow>
           map_option bm_win_rate_pct (br_metrics res) = Some (win_rate_pct (br_trades res))))
   \<and> ((\<forall>t \<in> set (trades s). t_profit t = None) \<longrightarrow> calculate_win_rate s = 0)
   \<and> (trades s1 \<noteq> [] \<longrightarrow>
      calculate_win_rate s1 =
        real (length (filter (\<lambda>t. case t_profit t of None \<Rightarrow> False | Some p \<Rightarrow> 0 < p)
                        (trades s1)))
          / real (length (trades s1)) * 100)
   \<and> (trades s1 \<noteq> [] \<and> curve1 \<noteq> [] \<longrightarrow>
      map_option m_win_rate (calculate_performance_metrics s1 curve1) =
        Some (real (length (filter (\<lambda>t. case t_profit t of None \<Rightarrow> False
                                          | Some p \<Rightarrow> 0 < p) (trades s1)))
                / real (length (trades s1)) * 100))"
proof -
  have ratio: "trs \<noteq> [] \<longrightarrow>
      win_rate_pct trs =
        real (length (filter (\<lambda>t. 0 < bt_profit t) trs)) / real (length trs) * 100"
    by (simp add: win_rate_pct_def)
  have positive: "(\<lambda>t. 0 < (case t_profit t of None \<Rightarrow> 0 | Some p \<Rightarrow> p)) =
                  (\<lambda>t. case t_profit t of None \<Rightarrow> False | Some p \<Rightarrow> 0 < p)"
    by (rule ext) (simp split: option.split)
  have sim_ratio: "trades s1 \<noteq> [] \<longrightarrow>
      calculate_win_rate s1 =
        real (length (filter (\<lambda>t. case t_profit t of None \<Rightarrow> False | Some p \<Rightarrow> 0 < p)
                        (trades s1)))
          / real (length (trades s1)) * 100"
    by (simp add: calculate_win_rate_def Let_def positive)
  have sim_metric: "trades s1 \<noteq> [] \<and> curve1 \<noteq> [] \<longrightarrow>
      map_option m_win_rate (calculate_performance_metrics s1 curve1) =
        Some (real (length (filter (\<lambda>t. case t_profit t of None \<Rightarrow> False
                                          | Some p \<Rightarrow> 0 < p) (trades s1)))
                / real (length (trades s1)) * 100)"
    using sim_ratio by (simp add: calculate_performance_metrics_def)
  have empty: "win_rate_pct [] = 0" by (simp add: win_rate_pct_def)
  have all: "trs \<noteq> [] \<and> (\<forall>t \<in> set trs. bt_side t = Buy \<longrightarrow> bt_profit t = 0) \<longrightarrow>
      win_rate_pct trs =
        real (length (filter (\<lambda>t. bt_profit t > 0) (filter (\<lambda>t. bt_side t = Sell) trs)))
          / real (length trs) * 100"
  proof (intro impI, elim conjE)
    assume ne: "trs \<noteq> []" and inv: "\<forall>t \<in> set trs. bt_side t = Buy \<longrightarrow> bt_profit t = 0"
    show "win_rate_pct trs =
        real (length (filter (\<lambda>t. bt_profit t > 0) (filter (\<lambda>t. bt_side t = Sell) trs)))
          / real (length trs) * 100"
      unfolding win_rate_pct_def wins_are_sells [OF inv, symmetric] using ne by simp
  qed
  have spec: "filter (\<lambda>t. bt_side t = Sell) trs \<noteq> []
        \<and> (\<forall>t \<in> set trs. bt_side t = Buy \<longrightarrow> bt_profit t = 0) \<longrightarrow>
      win_rate_pct trs * real (length trs) =
        spec_win_rate_pct trs * real (length (filter (\<lambda>t. bt_side t = Sell) trs))"
  proof (intro impI, elim conjE)
    assume sells: "filter (\<lambda>t. bt_side t = Sell) trs \<noteq> []"
      and inv: "\<forall>t \<in> set trs. bt_side t = Buy \<longrightarrow> bt_profit t = 0"
    from sells have ne: "trs \<noteq> []" by auto
    define w where "w = real (length (filter (\<lambda>t. bt_profit t > 0) trs))"
    have w: "real (length (filter (\<lambda>t. bt_profit t > 0) (filter (\<lambda>t. bt_side t = Sell) trs))) = w"
      unfolding w_def wins_are_sells [OF inv, symmetric] ..
    have n: "real (length trs) \<noteq> 0" using ne by simp
    have k: "real (length (filter (\<lambda>t. bt_side t = Sell) trs)) \<noteq> 0" using sells by simp
    have l: "win_rate_pct trs * real (length trs) = w * 100"
      using ne n by (simp add: win_rate_pct_def w_def)
    have r: "spec_win_rate_pct trs * real (length (filter (\<lambda>t. bt_side t = Sell) trs)) = w * 100"
      unfolding spec_win_rate_pct_def Let_def w using k by simp
    from l r show "win_rate_pct trs * real (length trs) =
        spec_win_rate_pct trs * real (length (filter (\<lambda>t. bt_side t = Sell) trs))" by simp
  qed
  have metrics: "2 \<le> length curve \<longrightarrow>
      calculate_metrics curve trs =
        Some \<lparr>bm_win_rate_pct = win_rate_pct trs, bm_total_trades = length trs\<rparr>"
    by (simp add: calculate_metrics_def)
  have curve_len: "\<And>bars st st'. bt_bars (get_default (sp_grid_range_pct params) 0.10)
         (get_default (sp_num_grids params) 20) (get_default (sp_order_size params) 100)
         (get_default (sp_fee_rate params) 0.001) st bars = Inr st' \<Longrightarrow>
       length (bs_equity_curve st') = length (bs_equity_curve st) + length bars"
  proof -
    fix bars st st'
    show "bt_bars (get_default (sp_grid_range_pct params) 0.10)
         (get_default (sp_num_grids params) 20) (get_default (sp_order_size params) 100)
         (get_default (sp_fee_rate params) 0.001) st bars = Inr st' \<Longrightarrow>
       length (bs_equity_curve st') = length (bs_equity_curve st) + length bars"
    proof (induction bars arbitrary: st)
      case Nil
      then show ?case by simp
    next
      case (Cons bar bars)
      from Cons.prems obtain st1 where
        s1: "bt_bars (get_default (sp_grid_range_pct params) 0.10)
         (get_default (sp_num_grids params) 20) (get_default (sp_order_size params) 100)
         (get_default (sp_fee_rate params) 0.001) st1 bars = Inr st'"
        and l1: "length (bs_equity_curve st1) = length (bs_equity_curve st) + 1"
        by (auto simp: Let_def split_beta split: sum.splits)
      from Cons.IH [OF s1] l1 show ?case by simp
    qed
  qed
  have run: "backtest_grid_strategy cap df params = Inr res \<longrightarrow>
      (\<forall>t \<in> set (br_trades res). bt_side t = Buy \<longrightarrow> bt_profit t = 0)
      \<and> (2 \<le> length df \<longrightarrow>
           map_option bm_win_rate_pct (br_metrics res) = Some (win_rate_pct (br_trades res)))"
  proof
    assume ok: "backtest_grid_strategy cap df params = Inr res"
    let ?st0 = "\<lparr>bs_portfolio = \<lparr>cash = cap, positions = 0, total_value = cap\<rparr>,
                 bs_trades = [], bs_equity_curve = []\<rparr>"
    from ok obtain st where
      st: "bt_bars (get_default (sp_grid_range_pct params) 0.10)
         (get_default (sp_num_grids params) 20) (get_default (sp_order_size params) 100)
         (get_default (sp_fee_rate params) 0.001) ?st0 df = Inr st"
      and res: "res = \<lparr>br_equity_curve = bs_equity_curve st, br_trades = bs_trades st,
                  br_portfolio = bs_portfolio st,
                  br_metrics = calculate_metrics (bs_equity_curve st) (bs_trades st)\<rparr>"
      by (auto simp: backtest_grid_strategy_def Let_def split: sum.splits)
    have "\<forall>t \<in> set (bs_trades st). bt_side t = Buy \<longrightarrow> bt_profit t = 0"
      using _ st by (rule bt_bars_buys_profit) simp
    moreover have "length (bs_equity_curve st) = length df"
      using curve_len [OF st] by simp
    ultimately show "(\<forall>t \<in> set (br_trades res). bt_side t = Buy \<longrightarrow> bt_profit t = 0)
      \<and> (2 \<le> length df \<longrightarrow>
           map_option bm_win_rate_pct (br_metrics res) = Some (win_rate_pct (br_trades res)))"
      unfolding res by (simp add: calculate_metrics_def)
  qed
  have sim: "(\<forall>t \<in> set (trades s). t_profit t = None) \<longrightarrow> calculate_win_rate s = 0"
  proof
    assume none: "\<forall>t \<in> set (trades s). t_profit t = None"
    then have "filter (\<lambda>t. (case t_profit t of None \<Rightarrow> 0 | Some p \<Rightarrow> p) > 0) (trades s) = []"
      by (auto simp: filter_empty_conv)
    then show "calculate_win_rate s = 0"
      by (simp add: calculate_win_rate_def Let_def)
  qed
  from empty ratio all spec metrics run sim sim_ratio sim_metric show ?thesis by blast
qed


theorem win_rate_over_all_trades_witness:
  "tight_trades \<noteq> []
   \<and> map (\<lambda>t. (bt_side t, bt_profit t)) tight_trades
       = [(Buy, 0), (Sell, 179900 / 201899), (Buy, 0)]
   \<and> win_rate_pct tight_trades = 100 / 3
   \<and> win_rate_pct tight_trades * 3 = spec_win_rate_pct tight_trades * 1
   \<and> 2 \<le> length (br_equity_curve tight_result)
   \<and> calculate_metrics (br_equity_curve tight_result) tight_trades =
        Some \<lparr>bm_win_rate_pct = 100 / 3, bm_total_trades = 3\<rparr>
   \<and> backtest_grid_strategy 10000 [bar_100, bar_101] tight_params = Inr tight_result
   \<and> map_option bm_win_rate_pct (br_metrics tight_result)
       = Some (win_rate_pct (br_trades tight_result))
   \<and> map t_profit (trades (snd (place_order holding 100 1 Buy Limit))) = [None]
   \<and> calculate_win_rate (snd (place_order holding 100 1 Buy Limit)) = 0
   \<and> map t_profit (trades loaded_log) = [Some 5, None]
   \<and> calculate_win_rate loaded_log = 50
   \<and> map_option m_win_rate
        (calculate_performance_metrics loaded_log
           [\<lparr>e_timestamp = 0, e_value = 10000, e_price = 100\<rparr>]) = Some 50"
  using win_rate_over_all_trades
          [where trs = tight_trades and curve = "br_equity_curve tight_result"
             and cap = 10000 and df = "[bar_100, bar_101]" and params = tight_params
             and res = tight_result and s = "snd (place_order holding 100 1 Buy Limit)"
             and ?s1.0 = loaded_log
             and ?curve1.0 = "[\<lparr>e_timestamp = 0, e_value = 10000, e_price = 100\<rparr>]"]
        tight_backtest
  by (simp add: tight_trades_def tight_result_def holding_def init_system_def
        place_order_sim_state execute_trade_trades loaded_log_def)

text \<open>
  Claim C8 as it is worded fails: a backtest over two bars records a buy, a winning sell
  and a buy, and reports a win rate of \<open>100 / 3\<close>, whereas one winning sell out of one
  sell is 100.
\<close>

theorem win_rate_counts_buys_too:
  "backtest_grid_strategy 10000 [bar_100, bar_101] tight_params = Inr tight_result
   \<and> br_trades tight_result = tight_trades
   \<and> map bt_side tight_trades = [Buy, Sell, Buy]
   \<and> map_option bm_win_rate_pct (br_metrics tight_result) = Some (100 / 3)
   \<and> spec_win_rate_pct tight_trades = 100"
  by (simp add: tight_backtest tight_result_def tight_trades_def spec_win_rate_pct_def)

subsection \<open>The bars of the synthetic market\<close>

lemma date_range_end_length: "length (date_range_end now n) = n"
  by (simp add: date_range_end_def)

lemma date_range_end_shift:
  "date_range_end now2 n = map (\<lambda>t. t + (now2 - now1)) (date_range_end now1 n)"
  by (simp add: date_range_end_def)

lemma date_range_end_last: "0 < n \<Longrightarrow> last (date_range_end now n) = now"
  by (simp add: date_range_end_def last_map)

lemma market_data_eq:
  assumes "0 \<le> vol"
  shows "generate_market_data lib ambient now days vol =
     Inr (map (\<lambda>i. \<lparr>b_timestamp = date_range_end now (days * 24 * 60) ! i,
                    b_open = sim_prices (fst (normal lib (seed lib 42) 0 vol (days * 24 * 60)))
                               (days * 24 * 60) ! i * 0.999,
                    b_high = sim_prices (fst (normal lib (seed lib 42) 0 vol (days * 24 * 60)))
                               (days * 24 * 60) ! i * 1.001,
                    b_low = sim_prices (fst (normal lib (seed lib 42) 0 vol (days * 24 * 60)))
                               (days * 24 * 60) ! i * 0.998,
                    b_close = sim_prices (fst (normal lib (seed lib 42) 0 vol (days * 24 * 60)))
                               (days * 24 * 60) ! i,
                    b_volume = fst (uniform lib
                                 (snd (normal lib (seed lib 42) 0 vol (days * 24 * 60)))
                                 100 1000 (days * 24 * 60)) i\<rparr>) [0..<days * 24 * 60],
          snd (uniform lib (snd (normal lib (seed lib 42) 0 vol (days * 24 * 60)))
                 100 1000 (days * 24 * 60)))"
  using assms by (simp add: generate_market_data_def Let_def split_beta)

lemma market_data_timestamps:
  "0 \<le> vol \<Longrightarrow> generate_market_data lib ambient now days vol = Inr (bars, after) \<Longrightarrow>
   map b_timestamp bars = date_range_end now (days * 24 * 60)"
proof -
  assume v: "0 \<le> vol" and "generate_market_data lib ambient now days vol = Inr (bars, after)"
  then have "map b_timestamp bars =
       map (\<lambda>i. date_range_end now (days * 24 * 60) ! i) [0..<days * 24 * 60]"
    unfolding market_data_eq [OF v] by auto
  also have "\<dots> = map (\<lambda>i. date_range_end now (days * 24 * 60) ! i)
                     [0..<length (date_range_end now (days * 24 * 60))]"
    by (simp only: date_range_end_length)
  also have "\<dots> = date_range_end now (days * 24 * 60)" by (rule map_nth)
  finally show ?thesis .
qed

lemma market_data_total:
  "0 \<le> vol \<Longrightarrow> \<exists>bars after. generate_market_data lib ambient now days vol = Inr (bars, after)
                         \<and> length bars = days * 24 * 60"
  by (simp add: market_data_eq)

lemma market_data_seeded:
  assumes "0 \<le> vol"
    and "generate_market_data lib ambient1 now1 days vol = Inr (bars1, after1)"
    and "generate_market_data lib ambient2 now2 days vol = Inr (bars2, after2)"
  shows "map b_open bars1 = map b_open bars2 \<and> map b_high bars1 = map b_high bars2
         \<and> map b_low bars1 = map b_low bars2 \<and> map b_close bars1 = map b_close bars2
         \<and> map b_volume bars1 = map b_volume bars2 \<and> after1 = after2"
  using assms(2,3) unfolding market_data_eq [OF assms(1)] by auto

lemma market_data_last:
  assumes "0 \<le> vol" "0 < days"
  shows "\<exists>bars after. generate_market_data lib ambient now days vol = Inr (bars, after)
           \<and> b_timestamp (last bars) = now"
proof -
  from assms(1) obtain bars after where
    b: "generate_market_data lib ambient now days vol = Inr (bars, after)"
       "length bars = days * 24 * 60"
    using market_data_total [where lib = lib and ambient = ambient and now = now
        and days = days and vol = vol] by blast
  from b(2) assms(2) have ne: "bars \<noteq> []" by auto
  have "b_timestamp (last bars) = last (map b_timestamp bars)"
    using ne by (simp add: last_map)
  also have "\<dots> = last (date_range_end now (days * 24 * 60))"
    using market_data_timestamps [OF assms(1) b(1)] by simp
  also have "\<dots> = now" using assms(2) by (intro date_range_end_last) simp
  finally show ?thesis using b(1) by blast
qed

lemma market_data_clock:
  assumes "0 \<le> vol" "0 < days" "now1 \<noteq> now2"
  shows "generate_market_data lib ambient1 now1 days vol
           \<noteq> generate_market_data lib ambient2 now2 days vol"
proof
  assume same: "generate_market_data lib ambient1 now1 days vol
                  = generate_market_data lib ambient2 now2 days vol"
  obtain bars1 after1 where
    b1: "generate_market_data lib ambient1 now1 days vol = Inr (bars1, after1)"
        "b_timestamp (last bars1) = now1"
    using market_data_last [OF assms(1,2), where lib = lib and ambient = ambient1
        and now = now1] by blast
  obtain bars2 after2 where
    b2: "generate_market_data lib ambient2 now2 days vol = Inr (bars2, after2)"
        "b_timestamp (last bars2) = now2"
    using market_data_last [OF assms(1,2), where lib = lib and ambient = ambient2
        and now = now2] by blast
  from same b1(1) b2(1) have "bars1 = bars2" by simp
  with b1(2) b2(2) assms(3) show False by simp
qed

subsection \<open>Two runs of the market data generator\<close>

text \<open>
  Claim C9, as the code has it. The generator first seeds numpy with the constant 42,
  which replaces whatever state numpy's generator was in. So for the same \<open>days\<close> and
  the same (non-negative) volatility two runs, started in any two states of the
  generator (the second, say, in the state the first has left), return bar sequences of
  the same length that agree in open, high, low, close and volume of every bar, and
  leave the generator in the same state. The timestamps are laid out backwards from the
  reading of the clock at the call: the last bar carries that reading, the timestamps
  of two runs differ by the time between the two calls, and so the two sequences are
  different whenever the clock has moved and there is at least one bar.
\<close>

theorem market_data_repeats_up_to_the_clock:
  "(0 \<le> vol \<longrightarrow>
      (\<exists>bars1 bars2 after.
          generate_market_data lib ambient1 now1 days vol = Inr (bars1, after)
          \<and> generate_market_data lib ambient2 now2 days vol = Inr (bars2, after)
          \<and> length bars1 = days * 24 * 60 \<and> length bars2 = days * 24 * 60
          \<and> map b_open bars1 = map b_open bars2 \<and> map b_high bars1 = map b_high bars2
          \<and> map b_low bars1 = map b_low bars2 \<and> map b_close bars1 = map b_close bars2
          \<and> map b_volume bars1 = map b_volume bars2
          \<and> map b_timestamp bars2 = map (\<lambda>t. t + (now2 - now1)) (map b_timestamp bars1)))
   \<and> (0 \<le> vol \<and> 0 < days \<longrightarrow>
      (\<exists>bars after. generate_market_data lib ambient1 now1 days vol = Inr (bars, after)
           \<and> b_timestamp (last bars) = now1))
   \<and> (0 \<le> vol \<and> 0 < days \<and> now1 \<noteq> now2 \<longrightarrow>
      generate_market_data lib ambient1 now1 days vol
        \<noteq> generate_market_data lib ambient2 now2 days vol)"
proof -
  have same: "0 \<le> vol \<longrightarrow>
      (\<exists>bars1 bars2 after.
          generate_market_data lib ambient1 now1 days vol = Inr (bars1, after)
          \<and> generate_market_data lib ambient2 now2 days vol = Inr (bars2, after)
          \<and> length bars1 = days * 24 * 60 \<and> length bars2 = days * 24 * 60
          \<and> map b_open bars1 = map b_open bars2 \<and> map b_high bars1 = map b_high bars2
          \<and> map b_low bars1 = map b_low bars2 \<and> map b_close bars1 = map b_close bars2
          \<and> map b_volume bars1 = map b_volume bars2
          \<and> map b_timestamp bars2 = map (\<lambda>t. t + (now2 - now1)) (map b_timestamp bars1))"
  proof
    assume v: "0 \<le> vol"
    obtain bars1 after1 where
      b1: "generate_market_data lib ambient1 now1 days vol = Inr (bars1, after1)"
          "length bars1 = days * 24 * 60"
      using market_data_total [OF v, where lib = lib and ambient = ambient1 and now = now1
          and days = days] by blast
    obtain bars2 after2 where
      b2: "generate_market_data lib ambient2 now2 days vol = Inr (bars2, after2)"
          "length bars2 = days * 24 * 60"
      using market_data_total [OF v, where lib = lib and ambient = ambient2 and now = now2
          and days = days] by blast
    have fields: "map b_open bars1 = map b_open bars2 \<and> map b_high bars1 = map b_high bars2
         \<and> map b_low bars1 = map b_low bars2 \<and> map b_close bars1 = map b_close bars2
         \<and> map b_volume bars1 = map b_volume bars2 \<and> after1 = after2"
      using v b1(1) b2(1) by (rule market_data_seeded)
    have "map b_timestamp bars2 = date_range_end now2 (days * 24 * 60)"
      using v b2(1) by (rule market_data_timestamps)
    also have "\<dots> = map (\<lambda>t. t + (now2 - now1)) (date_range_end now1 (days * 24 * 60))"
      by (rule date_range_end_shift)
    also have "date_range_end now1 (days * 24 * 60) = map b_timestamp bars1"
      using market_data_timestamps [OF v b1(1)] by simp
    finally have shift:
      "map b_timestamp bars2 = map (\<lambda>t. t + (now2 - now1)) (map b_timestamp bars1)" .
    from fields b2(1) have b2': "generate_market_data lib ambient2 now2 days vol
                                   = Inr (bars2, after1)" by simp
    from b1 b2' b2(2) fields shift show "\<exists>bars1 bars2 after.
          generate_market_data lib ambient1 now1 days vol = Inr (bars1, after)
          \<and> generate_market_data lib ambient2 now2 days vol = Inr (bars2, after)
          \<and> length bars1 = days * 24 * 60 \<and> length bars2 = days * 24 * 60
          \<and> map b_open bars1 = map b_open bars2 \<and> map b_high bars1 = map b_high bars2
          \<and> map b_low bars1 = map b_low bars2 \<and> map b_close bars1 = map b_close bars2
          \<and> map b_volume bars1 = map b_volume bars2
          \<and> map b_timestamp bars2 = map (\<lambda>t. t + (now2 - now1)) (map b_timestamp bars1)"
      by blast
  qed
  have anchored: "0 \<le> vol \<and> 0 < days \<longrightarrow>
      (\<exists>bars after. generate_market_data lib ambient1 now1 days vol = Inr (bars, after)
           \<and> b_timestamp (last bars) = now1)"
    using market_data_last [of vol days lib ambient1 now1] by blast
  have differ: "0 \<le> vol \<and> 0 < days \<and> now1 \<noteq> now2 \<longrightarrow>
      generate_market_data lib ambient1 now1 days vol
        \<noteq> generate_market_data lib ambient2 now2 days vol"
    using market_data_clock [of vol days now1 now2 lib ambient1 ambient2] by blast
  from same anchored differ show ?thesis by blast
qed

theorem market_data_repeats_up_to_the_clock_witness:
  "(0::real) \<le> 0.02 \<and> (0::nat) < 1 \<and> (0::int) \<noteq> 60000000
   \<and> (\<exists>bars1 bars2 after.
          generate_market_data counter_random 0 0 1 0.02 = Inr (bars1, after)
          \<and> generate_market_data counter_random 7 60000000 1 0.02 = Inr (bars2, after)
          \<and> length bars1 = 1440 \<and> length bars2 = 1440
          \<and> map b_open bars1 = map b_open bars2 \<and> map b_high bars1 = map b_high bars2
          \<and> map b_low bars1 = map b_low bars2 \<and> map b_close bars1 = map b_close bars2
          \<and> map b_volume bars1 = map b_volume bars2
          \<and> map b_timestamp bars2 = map (\<lambda>t. t + 60000000) (map b_timestamp bars1))
   \<and> (\<exists>bars after. generate_market_data counter_random 0 0 1 0.02 = Inr (bars, after)
           \<and> b_timestamp (last bars) = 0)
   \<and> generate_market_data counter_random 0 0 1 0.02
       \<noteq> generate_market_data counter_random 7 60000000 1 0.02"
  using market_data_repeats_up_to_the_clock
          [where vol = "0.02" and lib = counter_random and ?ambient1.0 = 0
             and ?ambient2.0 = 7 and ?now1.0 = 0 and ?now2.0 = 60000000 and days = 1]
  by simp

text \<open>
  Claim C9 as it is worded fails: with the same generator in the same state, one day of
  data and volatility 0.02, two calls a minute apart (60000000 microseconds) return
  different bar sequences.
\<close>

theorem market_data_depends_on_the_clock:
  "generate_market_data counter_random 0 0 1 0.02
     \<noteq> generate_market_data counter_random 0 60000000 1 0.02"
  by (rule market_data_clock) simp_all

end
